theory Spec2Isabelle
  imports Main
begin

section \<open>Go library functions used by the mount daemon\<close>

text \<open>
  Go strings are byte sequences; \<open>string\<close> (a list of 8-bit characters) models them
  byte for byte, so \<open>length\<close> is Go's \<open>len\<close> and \<open>s ! i\<close> is Go's \<open>s[i]\<close> where
  \<open>i < length s\<close>.
\<close>

text \<open>\<open>strings.TrimSuffix\<close>: drops one trailing copy of the suffix when there is one.\<close>

definition TrimSuffix :: "string \<Rightarrow> string \<Rightarrow> string" where
  "TrimSuffix s suffix =
     (if length suffix \<le> length s \<and> drop (length s - length suffix) s = suffix
      then take (length s - length suffix) s else s)"

text \<open>
  \<open>strings.Split\<close> for a separator of one byte (the daemon only splits at a line feed):
  the pieces between the separators, so \<open>n\<close> separators give \<open>n + 1\<close> pieces and the
  empty string gives one empty piece.
\<close>

fun Split :: "string \<Rightarrow> char \<Rightarrow> string list" where
  "Split [] sep = [[]]"
| "Split (c # cs) sep =
     (if c = sep then [] # Split cs sep
      else (case Split cs sep of
              [] \<Rightarrow> [[c]]
            | piece # pieces \<Rightarrow> (c # piece) # pieces))"

text \<open>
  \<open>unicode.IsSpace\<close> on the UTF-8 bytes at the head of a string: the number of bytes of
  the white space rune that starts there, or 0. The runes are U+0009..U+000D, U+0020,
  U+0085, U+00A0, U+1680, U+2000..U+200A, U+2028, U+2029, U+202F, U+205F and U+3000.
  Every multi-byte encoding below starts with a lead byte, which no decoded rune
  contains at a later position, so matching the bytes agrees with decoding rune by rune.
\<close>

fun spaceLen :: "string \<Rightarrow> nat" where
  "spaceLen [] = 0"
| "spaceLen (c # cs) =
     (let b = of_char c :: nat in
      if b = 0x09 \<or> b = 0x0A \<or> b = 0x0B \<or> b = 0x0C \<or> b = 0x0D \<or> b = 0x20 then 1
      else if b = 0xC2 then
        (case cs of
           d # _ \<Rightarrow> (if of_char d = (0x85 :: nat) \<or> of_char d = (0xA0 :: nat) then 2 else 0)
         | [] \<Rightarrow> 0)
      else if b = 0xE1 then
        (case cs of
           d # e # _ \<Rightarrow> (if of_char d = (0x9A :: nat) \<and> of_char e = (0x80 :: nat) then 3 else 0)
         | _ \<Rightarrow> 0)
      else if b = 0xE2 then
        (case cs of
           d # e # _ \<Rightarrow>
             (let x = of_char d :: nat; y = of_char e :: nat in
              if x = 0x80 \<and> ((0x80 \<le> y \<and> y \<le> 0x8A) \<or> y = 0xA8 \<or> y = 0xA9 \<or> y = 0xAF) then 3
              else if x = 0x81 \<and> y = 0x9F then 3
              else 0)
         | _ \<Rightarrow> 0)
      else if b = 0xE3 then
        (case cs of
           d # e # _ \<Rightarrow> (if of_char d = (0x80 :: nat) \<and> of_char e = (0x80 :: nat) then 3 else 0)
         | _ \<Rightarrow> 0)
      else 0)"

text \<open>
  \<open>strings.Fields\<close>: the maximal runs of bytes between white space, none of them empty.
  \<open>skip\<close> counts the remaining bytes of a white space rune already recognised, \<open>cur\<close>
  is the field read so far.
\<close>

fun fieldsFrom :: "nat \<Rightarrow> string \<Rightarrow> string \<Rightarrow> string list" where
  "fieldsFrom skip cur [] = (if cur = [] then [] else [cur])"
| "fieldsFrom skip cur (c # cs) =
     (if 0 < skip then fieldsFrom (skip - 1) cur cs
      else if 0 < spaceLen (c # cs)
        then (if cur = [] then [] else [cur]) @ fieldsFrom (spaceLen (c # cs) - 1) [] cs
        else fieldsFrom 0 (cur @ [c]) cs)"

definition Fields :: "string \<Rightarrow> string list" where
  "Fields s = fieldsFrom 0 [] s"

text \<open>\<open>strings.Join\<close>.\<close>

fun strings_Join :: "string list \<Rightarrow> string \<Rightarrow> string" where
  "strings_Join [] sep = []"
| "strings_Join [e] sep = e"
| "strings_Join (e # f # es) sep = e @ sep @ strings_Join (f # es) sep"

text \<open>
  \<open>filepath.Clean\<close> on a Unix path, element by element: empty elements and \<open>.\<close> are
  dropped, \<open>..\<close> removes the element before it (at the root it is dropped, in a relative
  path with nothing to remove it is kept), and the empty result is \<open>.\<close>. \<open>acc\<close> holds
  the elements kept so far, the last one first.
\<close>

fun cleanElems :: "bool \<Rightarrow> string list \<Rightarrow> string list \<Rightarrow> string list" where
  "cleanElems rooted acc [] = rev acc"
| "cleanElems rooted acc (e # es) =
     (if e = [] \<or> e = ''.'' then cleanElems rooted acc es
      else if e = ''..'' then
        (case acc of
           [] \<Rightarrow> (if rooted then cleanElems rooted [] es else cleanElems rooted [e] es)
         | a # as \<Rightarrow>
             (if a = ''..'' then cleanElems rooted (e # acc) es
              else cleanElems rooted as es))
      else cleanElems rooted (e # acc) es)"

definition Clean :: "string \<Rightarrow> string" where
  "Clean path =
     (case path of
        [] \<Rightarrow> ''.''
      | c # _ \<Rightarrow>
          (let rooted = (c = CHR ''/'');
               elems = cleanElems rooted [] (Split path (CHR ''/''))
           in if rooted then ''/'' @ strings_Join elems ''/''
              else if elems = [] then ''.''
              else strings_Join elems ''/''))"

text \<open>
  \<open>filepath.Join\<close>: leading empty elements are ignored, the rest is joined with slashes
  and cleaned; \<open>filepath.Dir\<close>: the path up to its last slash, cleaned.
\<close>

fun filepath_Join :: "string list \<Rightarrow> string" where
  "filepath_Join [] = []"
| "filepath_Join (e # es) =
     (if e = [] then filepath_Join es else Clean (strings_Join (e # es) ''/''))"

definition Dir :: "string \<Rightarrow> string" where
  "Dir path = Clean (rev (dropWhile (\<lambda>c. c \<noteq> CHR ''/'') (rev path)))"

section \<open>The ClientMount resource\<close>

text \<open>
  Modelled from the spec: the declarations of the API package (\<open>clientmount_types.go\<close>)
  are missing from the sources. The types below follow the data model of the spec and
  the way the two controllers read and write the fields. The state and the device tag
  are Go string types that the code only compares with their named constants and with
  each other; every other value, the zero value (the empty string) among them, is
  \<open>ClientMountStateOther\<close> or \<open>ClientMountDeviceTypeOther\<close> of its text.
\<close>

datatype ClientMountState =
    ClientMountStateMounted
  | ClientMountStateUnmounted
  | ClientMountStateOther string

datatype ClientMountDeviceType =
    ClientMountDeviceTypeLustre
  | ClientMountDeviceTypeLVM
  | ClientMountDeviceTypeOther string

record ClientMountDeviceLustre =
  MgsAddresses :: string
  FileSystemName :: string

record ClientMountDeviceLVM =
  VolumeGroup :: string
  LogicalVolume :: string

text \<open>
  \<open>configureLVMDevice\<close> takes the LVM reference as a pointer, so the field \<open>LVM\<close> can be
  nil (\<open>None\<close>); \<open>Lustre\<close> is taken to be a pointer in the same way. \<open>DeviceType\<close> is the
  field \<open>Device.Type\<close> and \<open>Type\<close> the file system type \<open>ClientMountInfo.Type\<close>.
\<close>

record ClientMountDevice =
  DeviceType :: ClientMountDeviceType
  Lustre :: "ClientMountDeviceLustre option"
  LVM :: "ClientMountDeviceLVM option"

record ClientMountInfo =
  MountPath :: string
  Options :: string
  Device :: ClientMountDevice
  Type :: string
  TargetType :: string

text \<open>
  Go errors. \<open>ExternalError\<close> is an error of the operating system, of \<open>os/exec\<close> or of the
  API server; \<open>Conflict\<close> is the API server's status error with the reason Conflict, the
  one that \<open>apierrors.IsConflict\<close> recognises; \<open>Errorf\<close> is made by \<open>fmt.Errorf\<close>;
  \<open>ResourceError\<close> is the API package's error with its message, wrapped error, user
  message and fatal flag.
\<close>

datatype error =
    ExternalError string
  | Conflict string
  | Errorf string
  | ResourceError string "error option" string bool

definition IsConflict :: "error option \<Rightarrow> bool" where
  "IsConflict err = (case err of Some (Conflict _) \<Rightarrow> True | _ \<Rightarrow> False)"

text \<open>
  Modelled from the spec: \<open>NewResourceError\<close>, \<open>WithUserMessage\<close> and \<open>WithFatal\<close> are
  missing from the sources (\<open>resource_error.go\<close>). The spec calls their result a fatal,
  user-facing error: they build the error and set its user message and its fatal flag.
\<close>

definition NewResourceError :: "string \<Rightarrow> error option \<Rightarrow> error" where
  "NewResourceError message err = ResourceError message err [] False"

fun WithUserMessage :: "error \<Rightarrow> string \<Rightarrow> error" where
  "WithUserMessage (ResourceError message err _ fatal) userMessage =
     ResourceError message err userMessage fatal"
| "WithUserMessage e userMessage = e"

fun WithFatal :: "error \<Rightarrow> error" where
  "WithFatal (ResourceError message err userMessage _) = ResourceError message err userMessage True"
| "WithFatal e = e"

record ClientMountInfoStatus =
  State :: ClientMountState
  Ready :: bool
  Message :: string

record ClientMountSpec =
  Mounts :: "ClientMountInfo list"
  DesiredState :: ClientMountState

text \<open>\<open>StatusMounts\<close> is the field \<open>Status.Mounts\<close>.\<close>

record ClientMountStatus =
  StatusMounts :: "ClientMountInfoStatus list"
  Error :: "error option"

text \<open>
  The object's metadata as far as \<open>Reconcile\<close> reads it: the deletion time stamp (nil,
  or an instant counted from Go's zero time) and the finalizers.
\<close>

record ClientMount =
  DeletionTimestamp :: "nat option"
  Finalizers :: "string list"
  Spec :: ClientMountSpec
  Status :: ClientMountStatus

definition IsZero :: "nat option \<Rightarrow> bool" where
  "IsZero t = (case t of None \<Rightarrow> True | Some n \<Rightarrow> n = 0)"

definition finalizerClientMount :: string where
  "finalizerClientMount = ''dws.cray.hpe.com/client_mount''"

definition ContainsFinalizer :: "ClientMount \<Rightarrow> string \<Rightarrow> bool" where
  "ContainsFinalizer obj f = (f \<in> set (Finalizers obj))"

definition AddFinalizer :: "ClientMount \<Rightarrow> string \<Rightarrow> ClientMount" where
  "AddFinalizer obj f =
     (if f \<in> set (Finalizers obj) then obj else obj\<lparr>Finalizers := Finalizers obj @ [f]\<rparr>)"

definition RemoveFinalizer :: "ClientMount \<Rightarrow> string \<Rightarrow> ClientMount" where
  "RemoveFinalizer obj f = obj\<lparr>Finalizers := filter (\<lambda>g. g \<noteq> f) (Finalizers obj)\<rparr>"

text \<open>\<open>make([]ClientMountInfoStatus, n)\<close>: \<open>n\<close> zero values.\<close>

definition zeroStatus :: ClientMountInfoStatus where
  "zeroStatus = \<lparr>State = ClientMountStateOther [], Ready = False, Message = []\<rparr>"

definition makeStatus :: "nat \<Rightarrow> ClientMountInfoStatus list" where
  "makeStatus n = replicate n zeroStatus"

section \<open>The host: commands, files, the API server and the log\<close>

text \<open>
  Everything the daemon does to its surroundings is a \<open>call\<close>: a shell command run by
  \<open>exec.Command("bash", "-c", c).Output()\<close>, \<open>os.MkdirAll\<close>, \<open>os.WriteFile\<close> of an empty
  file, \<open>os.Remove\<close>, and at the API server \<open>Update\<close> of the resource and \<open>StatusUpdate\<close>
  of its status (\<open>Status().Update\<close>). The host answers
  a call with an output and an error; the answer may depend on every call made before,
  so the host is a function of the history. The \<open>world\<close> is the history of calls and
  the log, both oldest first.
\<close>

datatype call =
    Exec string
  | MkdirAll string
  | WriteFile string
  | Remove string
  | Update ClientMount
  | StatusUpdate ClientMount

datatype logentry =
    LogInfo string "string list"
  | LogInfoError error
  | LogError error string "string list"

text \<open>
  \<open>LogInfo msg kvs\<close> is \<open>Info(msg, kvs...)\<close>, \<open>LogError err msg kvs\<close> is
  \<open>Error(err, msg, kvs...)\<close>, and \<open>LogInfoError err\<close> is \<open>Info(err.Error())\<close>.
\<close>

record world =
  calls :: "call list"
  logs :: "logentry list"

type_synonym host = "call list \<Rightarrow> call \<Rightarrow> string \<times> error option"

record ClientMountReconciler =
  Mock :: bool

definition logged :: "logentry \<Rightarrow> world \<Rightarrow> world" where
  "logged e w = w\<lparr>logs := logs w @ [e]\<rparr>"

definition called :: "call \<Rightarrow> world \<Rightarrow> world" where
  "called c w = w\<lparr>calls := calls w @ [c]\<rparr>"

text \<open>A run-time panic of Go ends the function; the world is the one it had reached.\<close>

datatype panic = IndexOutOfRange nat nat | NilPointerDereference

datatype 'a outcome = Ret 'a | Panic panic

definition run :: "ClientMountReconciler \<Rightarrow> host \<Rightarrow> string \<Rightarrow> world \<Rightarrow> (string \<times> error option) \<times> world" where
  "run r os c w =
     (if Mock r then (([], None), logged (LogInfo ''Run'' [''Command'', c]) w)
      else (os (calls w) (Exec c), called (Exec c) w))"

definition createFile :: "ClientMountReconciler \<Rightarrow> host \<Rightarrow> string \<Rightarrow> world \<Rightarrow> error option \<times> world" where
  "createFile r os path w =
     (if Mock r then (None, logged (LogInfo ''Touch file'' [''Path'', path]) w)
      else (snd (os (calls w) (WriteFile path)), called (WriteFile path) w))"

definition rmdir :: "ClientMountReconciler \<Rightarrow> host \<Rightarrow> string \<Rightarrow> world \<Rightarrow> error option \<times> world" where
  "rmdir r os path w =
     (if Mock r then (None, logged (LogInfo ''rmdir'' [''Path'', path]) w)
      else (snd (os (calls w) (Remove path)), called (Remove path) w))"

definition mkdir :: "ClientMountReconciler \<Rightarrow> host \<Rightarrow> string \<Rightarrow> world \<Rightarrow> error option \<times> world" where
  "mkdir r os path w =
     (if Mock r then (None, logged (LogInfo ''Mkdir'' [''Path'', path]) w)
      else (snd (os (calls w) (MkdirAll path)), called (MkdirAll path) w))"

text \<open>\<open>r.Update(ctx, clientMount)\<close>: the API server's answer to the changed object.\<close>

definition clientUpdate :: "host \<Rightarrow> ClientMount \<Rightarrow> world \<Rightarrow> error option \<times> world" where
  "clientUpdate os obj w = (snd (os (calls w) (Update obj)), called (Update obj) w)"

text \<open>\<open>r.Status().Update(ctx, clientMount)\<close>: the write of the status.\<close>

definition clientStatusUpdate :: "host \<Rightarrow> ClientMount \<Rightarrow> world \<Rightarrow> error option \<times> world" where
  "clientStatusUpdate os obj w = (snd (os (calls w) (StatusUpdate obj)), called (StatusUpdate obj) w)"

section \<open>The mount-state prober\<close>

fun checkMount_lines :: "string \<Rightarrow> string list \<Rightarrow> ClientMountState \<times> error option" where
  "checkMount_lines mountPath [] = (ClientMountStateUnmounted, None)"
| "checkMount_lines mountPath (line # lines) =
     (let fields = Fields line in
      if 3 \<le> length fields then
        (if fields ! 2 = mountPath then (ClientMountStateMounted, None)
         else checkMount_lines mountPath lines)
      else checkMount_lines mountPath lines)"

definition checkMount ::
  "ClientMountReconciler \<Rightarrow> host \<Rightarrow> string \<Rightarrow> world \<Rightarrow> (ClientMountState \<times> error option) \<times> world" where
  "checkMount r os mountPath w =
     (case run r os ''mount'' w of
        ((output, Some err), w1) \<Rightarrow>
          ((ClientMountStateUnmounted, Some (NewResourceError output (Some err))), w1)
      | ((output, None), w1) \<Rightarrow> (checkMount_lines mountPath (Split output (CHR 0x0A)), w1))"

section \<open>The volume activator\<close>

text \<open>The listing query \<open>lvs --noheadings --separator ' '\<close>; byte 0x27 is the quote.\<close>

definition lvsCommand :: string where
  "lvsCommand = ''lvs --noheadings --separator '' @ [CHR 0x27, CHR 0x20, CHR 0x27]"

definition accessError :: "string \<Rightarrow> error \<Rightarrow> error" where
  "accessError output err =
     WithFatal (WithUserMessage (NewResourceError output (Some err)) ''Client could not access storage'')"

definition releaseError :: "string \<Rightarrow> error \<Rightarrow> error" where
  "releaseError output err =
     WithFatal (WithUserMessage (NewResourceError output (Some err)) ''Client could not release storage'')"

text \<open>
  The body of the loop of \<open>configureLVMDevice\<close> for a line that passed the three
  checks (at least three fields, the logical volume, the volume group): \<open>fields[2][4]\<close>
  is read without a check of the length of \<open>fields[2]\<close>, then the volume group is
  changed when the activation asked for differs from the one listed.
\<close>

definition configureLVMDevice_matched ::
  "ClientMountReconciler \<Rightarrow> host \<Rightarrow> ClientMountDeviceLVM \<Rightarrow> bool \<Rightarrow> bool \<Rightarrow> string list \<Rightarrow>
   world \<Rightarrow> error option outcome \<times> world" where
  "configureLVMDevice_matched r os l activate shared flds w =
     (if length (flds ! 2) \<le> 4
        then (Panic (IndexOutOfRange 4 (length (flds ! 2))), w)
      else
        (let isActive = (flds ! 2 ! 4 = CHR ''a'') in
         if activate \<and> \<not> isActive then
           (case (if shared
                  then (case run r os (''vgchange --lockstart '' @ VolumeGroup l) w of
                          ((out1, Some err), w1) \<Rightarrow> (Some (accessError out1 err), [], w1)
                        | ((out1, None), w1) \<Rightarrow> (None, ''s'', w1))
                  else (None, [], w)) of
              (Some e, sharedOption, w1) \<Rightarrow> (Ret (Some e), w1)
            | (None, sharedOption, w1) \<Rightarrow>
                (case run r os (''vgchange --activate '' @ sharedOption @ ''y '' @ VolumeGroup l) w1 of
                   ((out2, Some err), w2) \<Rightarrow> (Ret (Some (accessError out2 err)), w2)
                 | ((out2, None), w2) \<Rightarrow> (Ret None, w2)))
         else if \<not> activate \<and> isActive then
           (case run r os (''vgchange --activate n '' @ VolumeGroup l) w of
              ((out1, Some err), w1) \<Rightarrow> (Ret (Some (releaseError out1 err)), w1)
            | ((out1, None), w1) \<Rightarrow>
                if shared then
                  (case run r os (''vgchange --lockstop '' @ VolumeGroup l) w1 of
                     ((out2, Some err), w2) \<Rightarrow> (Ret (Some (releaseError out2 err)), w2)
                   | ((out2, None), w2) \<Rightarrow> (Ret None, w2))
                else (Ret None, w1))
         else (Ret None, w)))"

text \<open>
  The loop of \<open>configureLVMDevice\<close> over the lines of the listing. The first line with
  at least three fields whose first two are the logical volume and the volume group
  decides; the code after the loop (no line matched) is the case of the empty list.
  \<open>lvm\<close> is a pointer, dereferenced when its fields are read.
\<close>

fun configureLVMDevice_lines ::
  "ClientMountReconciler \<Rightarrow> host \<Rightarrow> ClientMountDeviceLVM option \<Rightarrow> bool \<Rightarrow> bool \<Rightarrow> string \<Rightarrow>
   string list \<Rightarrow> world \<Rightarrow> error option outcome \<times> world" where
  "configureLVMDevice_lines r os lvm activate shared output [] w =
     (case lvm of
        None \<Rightarrow> (Panic NilPointerDereference, w)
      | Some l \<Rightarrow>
          (let err = WithFatal (NewResourceError
                 (''Could not find VG/LV pair '' @ VolumeGroup l @ ''/'' @ LogicalVolume l @ '': '' @ output)
                 None)
           in (Ret (Some err), logged (LogInfoError err) w)))"
| "configureLVMDevice_lines r os lvm activate shared output (line # lines) w =
     (let fields = Fields line in
      if length fields < 3 then configureLVMDevice_lines r os lvm activate shared output lines w
      else
        (case lvm of
           None \<Rightarrow> (Panic NilPointerDereference, w)
         | Some l \<Rightarrow>
             if fields ! 0 \<noteq> LogicalVolume l
               then configureLVMDevice_lines r os lvm activate shared output lines w
             else if fields ! 1 \<noteq> VolumeGroup l
               then configureLVMDevice_lines r os lvm activate shared output lines w
             else configureLVMDevice_matched r os l activate shared fields w))"

definition configureLVMDevice ::
  "ClientMountReconciler \<Rightarrow> host \<Rightarrow> ClientMountDeviceLVM option \<Rightarrow> bool \<Rightarrow> bool \<Rightarrow> world \<Rightarrow>
   error option outcome \<times> world" where
  "configureLVMDevice r os lvm activate shared w =
     (case run r os lvsCommand w of
        ((output, Some err), w1) \<Rightarrow> (Ret (Some err), w1)
      | ((output, None), w1) \<Rightarrow>
          if Mock r then (Ret None, w1)
          else configureLVMDevice_lines r os lvm activate shared output
                 (Split (TrimSuffix output [CHR 0x0A]) (CHR 0x0A)) w1)"

section \<open>The device resolver\<close>

definition getDevice ::
  "ClientMountReconciler \<Rightarrow> host \<Rightarrow> ClientMountInfo \<Rightarrow> world \<Rightarrow> (string \<times> error option) outcome \<times> world" where
  "getDevice r os clientMountInfo w =
     (case DeviceType (Device clientMountInfo) of
        ClientMountDeviceTypeLustre \<Rightarrow>
          (case Lustre (Device clientMountInfo) of
             None \<Rightarrow> (Panic NilPointerDereference, w)
           | Some lustre \<Rightarrow> (Ret (MgsAddresses lustre @ '':/'' @ FileSystemName lustre, None), w))
      | ClientMountDeviceTypeLVM \<Rightarrow>
          (case configureLVMDevice r os (LVM (Device clientMountInfo)) True
                  (Type clientMountInfo = ''gfs2'') w of
             (Panic p, w1) \<Rightarrow> (Panic p, w1)
           | (Ret (Some err), w1) \<Rightarrow> (Ret ([], Some err), w1)
           | (Ret None, w1) \<Rightarrow>
               (case LVM (Device clientMountInfo) of
                  None \<Rightarrow> (Panic NilPointerDereference, w1)
                | Some l \<Rightarrow> (Ret (filepath_Join [''/dev'', VolumeGroup l, LogicalVolume l], None), w1)))
      | ClientMountDeviceTypeOther _ \<Rightarrow> (Ret ([], Some (Errorf ''Invalid device type'')), w))"

section \<open>The mount executor\<close>

definition mount ::
  "ClientMountReconciler \<Rightarrow> host \<Rightarrow> ClientMountInfo \<Rightarrow> world \<Rightarrow> error option outcome \<times> world" where
  "mount r os clientMountInfo w =
     (case checkMount r os (MountPath clientMountInfo) w of
        ((state, Some err), w1) \<Rightarrow> (Ret (Some err), w1)
      | ((state, None), w1) \<Rightarrow>
          if state = ClientMountStateMounted
            then (Ret None, logged (LogInfo ''Already mounted'' []) w1)
          else
            (case getDevice r os clientMountInfo w1 of
               (Panic p, w2) \<Rightarrow> (Panic p, w2)
             | (Ret (device, Some err), w2) \<Rightarrow> (Ret (Some err), w2)
             | (Ret (device, None), w2) \<Rightarrow>
                 (let kvs = [''mount path'', MountPath clientMountInfo, ''device'', device] in
                  case (if TargetType clientMountInfo = ''directory'' then
                          (case mkdir r os (MountPath clientMountInfo) w2 of
                             (Some err, w3) \<Rightarrow>
                               (Some err, logged (LogError err ''Could not create mount directory'' kvs) w3)
                           | (None, w3) \<Rightarrow> (None, w3))
                        else if TargetType clientMountInfo = ''file'' then
                          (case mkdir r os (Dir (MountPath clientMountInfo)) w2 of
                             (Some err, w3) \<Rightarrow>
                               (Some err, logged (LogError err ''Could not create mount parent directory'' kvs) w3)
                           | (None, w3) \<Rightarrow>
                               (case createFile r os (MountPath clientMountInfo) w3 of
                                  (Some err, w4) \<Rightarrow>
                                    (Some err, logged (LogError err ''Could not create mount file'' kvs) w4)
                                | (None, w4) \<Rightarrow> (None, w4)))
                        else (None, w2)) of
                    (Some err, w5) \<Rightarrow> (Ret (Some err), w5)
                  | (None, w5) \<Rightarrow>
                      (let mountCmd = ''mount -t '' @ Type clientMountInfo @ '' '' @ device @ '' ''
                                        @ MountPath clientMountInfo;
                           mountCmd = (if Options clientMountInfo \<noteq> []
                                       then mountCmd @ '' -o '' @ Options clientMountInfo
                                       else mountCmd)
                       in case run r os mountCmd w5 of
                            ((output, Some err), w6) \<Rightarrow>
                              (Ret (Some err),
                               logged (LogInfo ''Could not mount file system''
                                         (kvs @ [''Error output'', output])) w6)
                          | ((output, None), w6) \<Rightarrow>
                              (Ret None,
                               logged (LogInfo ''Mounted file system''
                                         [''Mount path'', MountPath clientMountInfo, ''device'', device]) w6)))))"

definition unmount ::
  "ClientMountReconciler \<Rightarrow> host \<Rightarrow> ClientMountInfo \<Rightarrow> world \<Rightarrow> error option outcome \<times> world" where
  "unmount r os clientMountInfo w =
     (case checkMount r os (MountPath clientMountInfo) w of
        ((state, Some err), w1) \<Rightarrow> (Ret (Some err), w1)
      | ((state, None), w1) \<Rightarrow>
          (case (if state = ClientMountStateMounted then
                   (case run r os (''umount '' @ MountPath clientMountInfo) w1 of
                      ((output, Some err), w2) \<Rightarrow>
                        (Some err,
                         logged (LogInfo ''Could not unmount file system''
                                   [''mount path'', MountPath clientMountInfo, ''Error output'', output]) w2)
                    | ((output, None), w2) \<Rightarrow> (None, w2))
                 else (None, w1)) of
             (Some err, w3) \<Rightarrow> (Ret (Some err), w3)
           | (None, w3) \<Rightarrow>
               (case (if DeviceType (Device clientMountInfo) = ClientMountDeviceTypeLVM then
                        (case configureLVMDevice r os (LVM (Device clientMountInfo)) False
                                (Type clientMountInfo = ''gfs2'') w3 of
                           (Panic p, w4) \<Rightarrow> (Panic p, w4)
                         | (Ret (Some err), w4) \<Rightarrow>
                             (Ret (Some err),
                              logged (LogError err ''Could not deactivate LVM volume''
                                        [''mount path'', MountPath clientMountInfo]) w4)
                         | (Ret None, w4) \<Rightarrow> (Ret None, w4))
                      else (Ret None, w3)) of
                  (Panic p, w5) \<Rightarrow> (Panic p, w5)
                | (Ret (Some err), w5) \<Rightarrow> (Ret (Some err), w5)
                | (Ret None, w5) \<Rightarrow>
                    (case rmdir r os (MountPath clientMountInfo) w5 of
                       (Some err, w6) \<Rightarrow>
                         (Ret None,
                          logged (LogInfo ''Unmounted file system'' [''mount path'', MountPath clientMountInfo])
                            (logged (LogError err ''Unable to remove mount directory''
                                       [''Path'', MountPath clientMountInfo]) w6))
                     | (None, w6) \<Rightarrow>
                         (Ret None,
                          logged (LogInfo ''Unmounted file system'' [''mount path'', MountPath clientMountInfo])
                            w6)))))"

section \<open>The reconciliation loop\<close>

text \<open>
  \<open>clientMount.Status.Mounts[i].Ready = ready\<close>; Go panics when \<open>i\<close> is not an index of
  the status list.
\<close>

definition setReady :: "nat \<Rightarrow> bool \<Rightarrow> ClientMount \<Rightarrow> ClientMount outcome" where
  "setReady i ready clientMount =
     (let ms = StatusMounts (Status clientMount) in
      if i < length ms
      then Ret (clientMount\<lparr>Status := (Status clientMount)\<lparr>StatusMounts := ms[i := (ms ! i)\<lparr>Ready := ready\<rparr>]\<rparr>\<rparr>)
      else Panic (IndexOutOfRange i (length ms)))"

text \<open>
  The loops of \<open>mountAll\<close> and \<open>unmountAll\<close> over \<open>clientMount.Spec.Mounts\<close>: \<open>i\<close> is the
  index of the entry at the head of the list still to do.
\<close>

fun mountAll_loop ::
  "ClientMountReconciler \<Rightarrow> host \<Rightarrow> nat \<Rightarrow> error option \<Rightarrow> ClientMountInfo list \<Rightarrow> ClientMount \<Rightarrow>
   world \<Rightarrow> error option outcome \<times> ClientMount \<times> world" where
  "mountAll_loop r os i firstError [] clientMount w = (Ret firstError, clientMount, w)"
| "mountAll_loop r os i firstError (m # ms) clientMount w =
     (case mount r os m w of
        (Panic p, w1) \<Rightarrow> (Panic p, clientMount, w1)
      | (Ret (Some err), w1) \<Rightarrow>
          (let firstError = (if firstError = None then Some err else firstError) in
           case setReady i False clientMount of
             Panic p \<Rightarrow> (Panic p, clientMount, w1)
           | Ret clientMount1 \<Rightarrow> mountAll_loop r os (i + 1) firstError ms clientMount1 w1)
      | (Ret None, w1) \<Rightarrow>
          (case setReady i True clientMount of
             Panic p \<Rightarrow> (Panic p, clientMount, w1)
           | Ret clientMount1 \<Rightarrow> mountAll_loop r os (i + 1) firstError ms clientMount1 w1))"

definition mountAll ::
  "ClientMountReconciler \<Rightarrow> host \<Rightarrow> ClientMount \<Rightarrow> world \<Rightarrow> error option outcome \<times> ClientMount \<times> world" where
  "mountAll r os clientMount w = mountAll_loop r os 0 None (Mounts (Spec clientMount)) clientMount w"

fun unmountAll_loop ::
  "ClientMountReconciler \<Rightarrow> host \<Rightarrow> nat \<Rightarrow> error option \<Rightarrow> ClientMountInfo list \<Rightarrow> ClientMount \<Rightarrow>
   world \<Rightarrow> error option outcome \<times> ClientMount \<times> world" where
  "unmountAll_loop r os i firstError [] clientMount w = (Ret firstError, clientMount, w)"
| "unmountAll_loop r os i firstError (m # ms) clientMount w =
     (case unmount r os m w of
        (Panic p, w1) \<Rightarrow> (Panic p, clientMount, w1)
      | (Ret (Some err), w1) \<Rightarrow>
          (let firstError = (if firstError = None then Some err else firstError) in
           case setReady i False clientMount of
             Panic p \<Rightarrow> (Panic p, clientMount, w1)
           | Ret clientMount1 \<Rightarrow> unmountAll_loop r os (i + 1) firstError ms clientMount1 w1)
      | (Ret None, w1) \<Rightarrow>
          (case setReady i True clientMount of
             Panic p \<Rightarrow> (Panic p, clientMount, w1)
           | Ret clientMount1 \<Rightarrow> unmountAll_loop r os (i + 1) firstError ms clientMount1 w1))"

definition unmountAll ::
  "ClientMountReconciler \<Rightarrow> host \<Rightarrow> ClientMount \<Rightarrow> world \<Rightarrow> error option outcome \<times> ClientMount \<times> world" where
  "unmountAll r os clientMount w = unmountAll_loop r os 0 None (Mounts (Spec clientMount)) clientMount w"

text \<open>\<open>ctrl.Result\<close>; \<open>RequeueAfter\<close> is a \<open>time.Duration\<close>, an integer of nanoseconds.\<close>

record Result =
  Requeue :: bool
  RequeueAfter :: int

definition noRequeue :: Result where
  "noRequeue = \<lparr>Requeue = False, RequeueAfter = 0\<rparr>"

definition second :: int where
  "second = 1000000000"

text \<open>
  The statements of \<open>Reconcile\<close> of the mount daemon that follow the \<open>defer\<close>, for the
  resource that \<open>r.Get\<close> has fetched, up to the \<open>return\<close> (or the panic). The result is
  the pair handed to \<open>return\<close>, the resource as these statements leave it in memory and
  the world. Creating the status section replaces a status list of the wrong length by
  zero values; the next statement reads \<open>Status.Mounts[0]\<close>.
\<close>

definition Reconcile_body ::
  "ClientMountReconciler \<Rightarrow> host \<Rightarrow> ClientMount \<Rightarrow> world \<Rightarrow>
   (Result \<times> error option) outcome \<times> ClientMount \<times> world" where
  "Reconcile_body r os clientMount w =
     (if \<not> IsZero (DeletionTimestamp clientMount) then
        (if \<not> ContainsFinalizer clientMount finalizerClientMount
           then (Ret (noRequeue, None), clientMount, w)
         else
           (case unmountAll r os clientMount
                   (logged (LogInfo ''Unmounting all file systems due to resource deletion'' []) w) of
              (Panic p, cm1, w1) \<Rightarrow> (Panic p, cm1, w1)
            | (Ret (Some err), cm1, w1) \<Rightarrow> (Ret (noRequeue, Some err), cm1, w1)
            | (Ret None, cm1, w1) \<Rightarrow>
                (let cm2 = RemoveFinalizer cm1 finalizerClientMount in
                 case clientUpdate os cm2 w1 of
                   (Some err, w2) \<Rightarrow> (Ret (noRequeue, Some err), cm2, w2)
                 | (None, w2) \<Rightarrow> (Ret (noRequeue, None), cm2, w2))))
      else
        (let cm1 = (if length (StatusMounts (Status clientMount)) \<noteq> length (Mounts (Spec clientMount))
                    then clientMount\<lparr>Status := (Status clientMount)
                           \<lparr>StatusMounts := makeStatus (length (Mounts (Spec clientMount)))\<rparr>\<rparr>
                    else clientMount)
         in case StatusMounts (Status cm1) of
              [] \<Rightarrow> (Panic (IndexOutOfRange 0 0), cm1, w)
            | first # _ \<Rightarrow>
                if State first \<noteq> DesiredState (Spec cm1) then
                  (Ret (noRequeue, None),
                   cm1\<lparr>Status := (Status cm1)
                         \<lparr>StatusMounts :=
                            map (\<lambda>s. s\<lparr>State := DesiredState (Spec cm1), Ready := False\<rparr>)
                              (StatusMounts (Status cm1))\<rparr>\<rparr>,
                   w)
                else if \<not> ContainsFinalizer cm1 finalizerClientMount then
                  (let cm2 = AddFinalizer cm1 finalizerClientMount in
                   case clientUpdate os cm2 w of
                     (Some err, w1) \<Rightarrow> (Ret (\<lparr>Requeue = True, RequeueAfter = 0\<rparr>, None), cm2, w1)
                   | (None, w1) \<Rightarrow> (Ret (noRequeue, None), cm2, w1))
                else
                  (let cm2 = cm1\<lparr>Status := (Status cm1)\<lparr>Error := None\<rparr>\<rparr> in
                   if DesiredState (Spec cm2) = ClientMountStateMounted then
                     (case mountAll r os cm2 w of
                        (Panic p, cm3, w1) \<Rightarrow> (Panic p, cm3, w1)
                      | (Ret (Some err), cm3, w1) \<Rightarrow>
                          (let resourceError = NewResourceError ''Mount failed'' (Some err) in
                           (Ret (\<lparr>Requeue = False, RequeueAfter = second * 10\<rparr>, None),
                            cm3\<lparr>Status := (Status cm3)\<lparr>Error := Some resourceError\<rparr>\<rparr>,
                            logged (LogInfoError resourceError) w1))
                      | (Ret None, cm3, w1) \<Rightarrow> (Ret (noRequeue, None), cm3, w1))
                   else if DesiredState (Spec cm2) = ClientMountStateUnmounted then
                     (case unmountAll r os cm2 w of
                        (Panic p, cm3, w1) \<Rightarrow> (Panic p, cm3, w1)
                      | (Ret (Some err), cm3, w1) \<Rightarrow>
                          (let resourceError = NewResourceError ''Unmount failed'' (Some err) in
                           (Ret (\<lparr>Requeue = False, RequeueAfter = second * 10\<rparr>, None),
                            cm3\<lparr>Status := (Status cm3)\<lparr>Error := Some resourceError\<rparr>\<rparr>,
                            logged (LogInfoError resourceError) w1))
                      | (Ret None, cm3, w1) \<Rightarrow> (Ret (noRequeue, None), cm3, w1))
                   else (Ret (noRequeue, None), cm2, w))))"

text \<open>
  Modelled from the spec: \<open>updater.CloseWithStatusUpdate\<close> is missing from the sources
  (\<open>utils/updater\<close>). The spec has the status written at the end of the pass when it
  differs from the status the pass started with, and a conflict of that write silently
  dropped. As in \<open>close\<close> of the other controller, any other error of the write is
  returned; an error of the pass itself is kept.
\<close>

definition CloseWithStatusUpdate ::
  "host \<Rightarrow> ClientMount \<Rightarrow> ClientMountStatus \<Rightarrow> error option \<Rightarrow> world \<Rightarrow> error option \<times> world" where
  "CloseWithStatusUpdate os clientMount existingStatus err w =
     (if Status clientMount \<noteq> existingStatus then
        (case clientStatusUpdate os clientMount w of
           (updateErr, w1) \<Rightarrow>
             ((if err \<noteq> None then err
               else if \<not> IsConflict updateErr then updateErr
               else None),
              w1))
      else (err, w))"

text \<open>
  \<open>Reconcile\<close> of the mount daemon for the resource that \<open>r.Get\<close> has fetched: the
  statements above, then the deferred function, which hands the error of the pass to
  \<open>CloseWithStatusUpdate\<close> and returns what that returns. The deferred function also
  runs when the statements panic, with the error still nil; the panic then goes on.
\<close>

definition Reconcile ::
  "ClientMountReconciler \<Rightarrow> host \<Rightarrow> ClientMount \<Rightarrow> world \<Rightarrow>
   (Result \<times> error option) outcome \<times> ClientMount \<times> world" where
  "Reconcile r os clientMount w =
     (case Reconcile_body r os clientMount w of
        (Ret (result, err), cm1, w1) \<Rightarrow>
          (case CloseWithStatusUpdate os cm1 (Status clientMount) err w1 of
             (err1, w2) \<Rightarrow> (Ret (result, err1), cm1, w2))
      | (Panic p, cm1, w1) \<Rightarrow>
          (case CloseWithStatusUpdate os cm1 (Status clientMount) None w1 of
             (err1, w2) \<Rightarrow> (Panic p, cm1, w2)))"

text \<open>
  The statements after the \<open>defer\<close> of \<open>Reconcile\<close> of
  \<open>controllers/clientmount_controller.go\<close>, the controller that mounts nothing and
  reports every entry ready. Its last loop writes \<open>Status.Mounts[i]\<close> for every index
  \<open>i\<close> of \<open>Spec.Mounts\<close>.
\<close>

fun controllers_ready_loop :: "nat \<Rightarrow> ClientMountInfo list \<Rightarrow> ClientMount \<Rightarrow> ClientMount outcome" where
  "controllers_ready_loop i [] clientMount = Ret clientMount"
| "controllers_ready_loop i (m # ms) clientMount =
     (let sts = StatusMounts (Status clientMount) in
      if i < length sts
      then controllers_ready_loop (i + 1) ms
             (clientMount\<lparr>Status := (Status clientMount)
                \<lparr>StatusMounts := sts[i := (sts ! i)\<lparr>Ready := True, Message := []\<rparr>]\<rparr>\<rparr>)
      else Panic (IndexOutOfRange i (length sts)))"

definition controllers_Reconcile_body ::
  "host \<Rightarrow> ClientMount \<Rightarrow> world \<Rightarrow> (Result \<times> error option) outcome \<times> ClientMount \<times> world" where
  "controllers_Reconcile_body os clientMount w =
     (if \<not> IsZero (DeletionTimestamp clientMount) then
        (if \<not> ContainsFinalizer clientMount finalizerClientMount
           then (Ret (noRequeue, None), clientMount, w)
         else
           (let cm1 = RemoveFinalizer clientMount finalizerClientMount in
            case clientUpdate os cm1 w of
              (Some err, w1) \<Rightarrow> (Ret (noRequeue, Some err), cm1, w1)
            | (None, w1) \<Rightarrow> (Ret (noRequeue, None), cm1, w1)))
      else
        (let cm1 = (if length (StatusMounts (Status clientMount)) \<noteq> length (Mounts (Spec clientMount))
                    then clientMount\<lparr>Status := (Status clientMount)
                           \<lparr>StatusMounts := makeStatus (length (Mounts (Spec clientMount)))\<rparr>\<rparr>
                    else clientMount)
         in case StatusMounts (Status cm1) of
              [] \<Rightarrow> (Panic (IndexOutOfRange 0 0), cm1, w)
            | first # _ \<Rightarrow>
                if State first \<noteq> DesiredState (Spec cm1) then
                  (Ret (noRequeue, None),
                   cm1\<lparr>Status := (Status cm1)
                         \<lparr>StatusMounts :=
                            map (\<lambda>s. s\<lparr>State := DesiredState (Spec cm1), Ready := False, Message := []\<rparr>)
                              (StatusMounts (Status cm1))\<rparr>\<rparr>,
                   w)
                else if \<not> ContainsFinalizer cm1 finalizerClientMount then
                  (let cm2 = AddFinalizer cm1 finalizerClientMount in
                   case clientUpdate os cm2 w of
                     (Some err, w1) \<Rightarrow> (Ret (\<lparr>Requeue = True, RequeueAfter = 0\<rparr>, None), cm2, w1)
                   | (None, w1) \<Rightarrow> (Ret (noRequeue, None), cm2, w1))
                else
                  (case controllers_ready_loop 0 (Mounts (Spec cm1)) cm1 of
                     Panic p \<Rightarrow> (Panic p, cm1, w)
                   | Ret cm2 \<Rightarrow> (Ret (noRequeue, None), cm2, w))))"

text \<open>
  \<open>clientMountStatusUpdater.close\<close> of that controller: the status is written when it
  differs from the copy taken when the pass started; the error of the write is returned
  unless it is a conflict.
\<close>

definition statusUpdater_close ::
  "host \<Rightarrow> ClientMount \<Rightarrow> ClientMountStatus \<Rightarrow> world \<Rightarrow> error option \<times> world" where
  "statusUpdater_close os clientMount existingStatus w =
     (if Status clientMount \<noteq> existingStatus then
        (case clientStatusUpdate os clientMount w of
           (err, w1) \<Rightarrow> (if \<not> IsConflict err then (err, w1) else (None, w1)))
      else (None, w))"

text \<open>
  \<open>Reconcile\<close> of that controller: the deferred function calls \<open>close\<close> when the error
  of the pass is nil, and so also when the statements panic.
\<close>

definition controllers_Reconcile ::
  "host \<Rightarrow> ClientMount \<Rightarrow> world \<Rightarrow> (Result \<times> error option) outcome \<times> ClientMount \<times> world" where
  "controllers_Reconcile os clientMount w =
     (case controllers_Reconcile_body os clientMount w of
        (Ret (result, Some err), cm1, w1) \<Rightarrow> (Ret (result, Some err), cm1, w1)
      | (Ret (result, None), cm1, w1) \<Rightarrow>
          (case statusUpdater_close os cm1 (Status clientMount) w1 of
             (err1, w2) \<Rightarrow> (Ret (result, err1), cm1, w2))
      | (Panic p, cm1, w1) \<Rightarrow>
          (case statusUpdater_close os cm1 (Status clientMount) w1 of
             (err1, w2) \<Rightarrow> (Panic p, cm1, w2)))"

section \<open>Notions used to state the properties\<close>

text \<open>
  The fields of the lines of a volume listing, and the line that \<open>configureLVMDevice\<close>
  acts on: the first one with at least three fields whose first field is the logical
  volume and whose second field is the volume group.
\<close>

definition listingLines :: "string \<Rightarrow> string list list" where
  "listingLines output = map Fields (Split (TrimSuffix output [CHR 0x0A]) (CHR 0x0A))"

definition matchedLine :: "string \<Rightarrow> ClientMountDeviceLVM \<Rightarrow> string list option" where
  "matchedLine output l =
     find (\<lambda>flds. 3 \<le> length flds \<and> flds ! 0 = LogicalVolume l \<and> flds ! 1 = VolumeGroup l)
       (listingLines output)"

text \<open>
  One pass over the entries as the spec describes it, a fold that keeps every entry's
  own result: the operation runs on each entry in order, on the world the entry before
  left, whether or not earlier entries returned an error. Only a panic ends the pass;
  the results of the entries before it are kept.
\<close>

fun perEntry ::
  "(ClientMountInfo \<Rightarrow> world \<Rightarrow> error option outcome \<times> world) \<Rightarrow> ClientMountInfo list \<Rightarrow> world \<Rightarrow>
   (error option list \<times> panic option) \<times> world" where
  "perEntry each [] w = (([], None), w)"
| "perEntry each (m # ms) w =
     (case each m w of
        (Panic p, w1) \<Rightarrow> (([], Some p), w1)
      | (Ret e, w1) \<Rightarrow> (case perEntry each ms w1 of ((es, p), w2) \<Rightarrow> ((e # es, p), w2)))"

text \<open>The first error of a list of results, \<open>None\<close> when every entry succeeded.\<close>

fun firstError :: "error option list \<Rightarrow> error option" where
  "firstError [] = None"
| "firstError (None # es) = firstError es"
| "firstError (Some e # es) = Some e"

text \<open>The status list after the entries with results \<open>es\<close> have recorded their flags.\<close>

definition markReady :: "ClientMountInfoStatus list \<Rightarrow> error option list \<Rightarrow> ClientMountInfoStatus list" where
  "markReady sts es = map (\<lambda>(s, e). s\<lparr>Ready := (e = None)\<rparr>) (zip sts es) @ drop (length es) sts"

text \<open>
  A path element that \<open>filepath.Join\<close> leaves as it is: not empty, without a slash, and
  neither \<open>.\<close> nor \<open>..\<close>.
\<close>

definition plainName :: "string \<Rightarrow> bool" where
  "plainName n = (n \<noteq> [] \<and> CHR ''/'' \<notin> set n \<and> n \<noteq> ''.'' \<and> n \<noteq> ''..'')"

section \<open>Example inputs\<close>

definition emptyWorld :: world where
  "emptyWorld = \<lparr>calls = [], logs = []\<rparr>"

definition daemon :: ClientMountReconciler where
  "daemon = \<lparr>Mock = False\<rparr>"

definition exampleTable :: string where
  "exampleTable = ''/dev/sda1 on / type ext4 (rw)\<newline>/dev/vg0/lv0 on /mnt/a type xfs (rw)\<newline>''"

definition tableHost :: host where
  "tableHost history c = (exampleTable, None)"

definition exampleLVM :: ClientMountDeviceLVM where
  "exampleLVM = \<lparr>VolumeGroup = ''vg0'', LogicalVolume = ''lv0''\<rparr>"

definition exampleMount :: ClientMountInfo where
  "exampleMount =
     \<lparr>MountPath = ''/mnt/a'', Options = [],
      Device = \<lparr>DeviceType = ClientMountDeviceTypeLVM, Lustre = None, LVM = Some exampleLVM\<rparr>,
      Type = ''xfs'', TargetType = ''directory''\<rparr>"

definition activeListing :: string where
  "activeListing = ''  lv0 vg0 -wi-a----- 46.59g\<newline>''"

definition inactiveListing :: string where
  "inactiveListing = ''  lv1 vg0 -wi-a----- 46.59g\<newline>  lv0 vg0 -wi------- 46.59g\<newline>''"

text \<open>
  A host on which \<open>/mnt/a\<close> is mounted, the volume is active, every command succeeds and
  removing a directory fails.
\<close>

definition busyHost :: host where
  "busyHost history c =
     (case c of
        Exec cmd \<Rightarrow>
          (if cmd = ''mount'' then (exampleTable, None)
           else if cmd = lvsCommand then (activeListing, None)
           else ([], None))
      | Remove path \<Rightarrow> ([], Some (ExternalError ''device or resource busy''))
      | _ \<Rightarrow> ([], None))"

text \<open>
  A host on which nothing is mounted, the volume \<open>vg0/lv0\<close> is listed as inactive and
  every command succeeds.
\<close>

definition idleHost :: host where
  "idleHost history c =
     (case c of
        Exec cmd \<Rightarrow> (if cmd = lvsCommand then (inactiveListing, None) else ([], None))
      | _ \<Rightarrow> ([], None))"

text \<open>A host whose listing shows the volume with an attribute field of three bytes.\<close>

definition shortListing :: string where
  "shortListing = ''lv0 vg0 -wi\<newline>''"

definition shortHost :: host where
  "shortHost history c =
     (case c of
        Exec cmd \<Rightarrow> (if cmd = lvsCommand then (shortListing, None) else ([], None))
      | _ \<Rightarrow> ([], None))"

definition clusteredMount :: ClientMountInfo where
  "clusteredMount = exampleMount\<lparr>Type := ''gfs2''\<rparr>"

text \<open>
  Three Lustre mounts in one resource, on a host where nothing is mounted and the mount
  command of the second entry fails.
\<close>

definition lustreMount :: "string \<Rightarrow> ClientMountInfo" where
  "lustreMount path =
     \<lparr>MountPath = path, Options = [],
      Device = \<lparr>DeviceType = ClientMountDeviceTypeLustre,
                Lustre = Some \<lparr>MgsAddresses = ''mgs@tcp'', FileSystemName = ''fs1''\<rparr>, LVM = None\<rparr>,
      Type = ''lustre'', TargetType = ''directory''\<rparr>"

definition failingHost :: host where
  "failingHost history c =
     (if c = Exec ''mount -t lustre mgs@tcp:/fs1 /mnt/b''
      then ([], Some (ExternalError ''exit status 32''))
      else ([], None))"

definition threeMounts :: ClientMount where
  "threeMounts =
     \<lparr>DeletionTimestamp = None, Finalizers = [finalizerClientMount],
      Spec = \<lparr>Mounts = [lustreMount ''/mnt/a'', lustreMount ''/mnt/b'', lustreMount ''/mnt/c''],
              DesiredState = ClientMountStateMounted\<rparr>,
      Status = \<lparr>StatusMounts =
                  replicate 3 \<lparr>State = ClientMountStateMounted, Ready = False, Message = []\<rparr>,
                Error = None\<rparr>\<rparr>"

text \<open>A resource with no mount entry, not being deleted.\<close>

definition emptyResource :: ClientMount where
  "emptyResource =
     \<lparr>DeletionTimestamp = None, Finalizers = [],
      Spec = \<lparr>Mounts = [], DesiredState = ClientMountStateMounted\<rparr>,
      Status = \<lparr>StatusMounts = [], Error = None\<rparr>\<rparr>"

text \<open>
  A resource whose status still records the state Unmounted, with an old message, while
  the spec asks for Mounted; and a resource under deletion whose status records Mounted
  while the spec asks for Unmounted.
\<close>

definition staleResource :: ClientMount where
  "staleResource =
     \<lparr>DeletionTimestamp = None, Finalizers = [finalizerClientMount],
      Spec = \<lparr>Mounts = [exampleMount], DesiredState = ClientMountStateMounted\<rparr>,
      Status = \<lparr>StatusMounts = [\<lparr>State = ClientMountStateUnmounted, Ready = True,
                                  Message = ''old failure''\<rparr>],
                Error = None\<rparr>\<rparr>"

definition deletedResource :: ClientMount where
  "deletedResource =
     \<lparr>DeletionTimestamp = Some 1, Finalizers = [finalizerClientMount],
      Spec = \<lparr>Mounts = [clusteredMount], DesiredState = ClientMountStateUnmounted\<rparr>,
      Status = \<lparr>StatusMounts = [\<lparr>State = ClientMountStateMounted, Ready = False, Message = []\<rparr>],
                Error = None\<rparr>\<rparr>"

text \<open>
  A volume-backed entry whose volume group is named \<open>.\<close>, on a host that lists it as
  active; a host whose listing query fails; an entry with a device tag that is neither
  Lustre nor LVM.
\<close>

definition dotMount :: ClientMountInfo where
  "dotMount = exampleMount\<lparr>Device := \<lparr>DeviceType = ClientMountDeviceTypeLVM, Lustre = None,
                                        LVM = Some \<lparr>VolumeGroup = ''.'', LogicalVolume = ''lv0''\<rparr>\<rparr>\<rparr>"

definition dotHost :: host where
  "dotHost history c = (''lv0 . -wi-a-----\<newline>'', None)"

definition brokenHost :: host where
  "brokenHost history c = ([], Some (ExternalError ''exit status 127''))"

definition otherMount :: ClientMountInfo where
  "otherMount = exampleMount\<lparr>Device := \<lparr>DeviceType = ClientMountDeviceTypeOther ''reference'',
                                          Lustre = None, LVM = None\<rparr>\<rparr>"

text \<open>
  A resource whose first status entry records the desired state Mounted while its second
  records Unmounted.
\<close>

definition mixedResource :: ClientMount where
  "mixedResource =
     \<lparr>DeletionTimestamp = None, Finalizers = [finalizerClientMount],
      Spec = \<lparr>Mounts = [lustreMount ''/mnt/a'', lustreMount ''/mnt/c''],
              DesiredState = ClientMountStateMounted\<rparr>,
      Status = \<lparr>StatusMounts = [\<lparr>State = ClientMountStateMounted, Ready = True, Message = []\<rparr>,
                                 \<lparr>State = ClientMountStateUnmounted, Ready = True, Message = []\<rparr>],
                Error = None\<rparr>\<rparr>"

section \<open>Evaluation of the library functions on the example inputs\<close>

lemma Fields_empty: "Fields [] = []"
  by (simp add: Fields_def)

lemma Split_exampleTable:
  "Split exampleTable (CHR 0x0A) =
     [''/dev/sda1 on / type ext4 (rw)'', ''/dev/vg0/lv0 on /mnt/a type xfs (rw)'', []]"
  by code_simp

lemma Fields_exampleTable:
  "Fields ''/dev/sda1 on / type ext4 (rw)'' = [''/dev/sda1'', ''on'', ''/'', ''type'', ''ext4'', ''(rw)'']"
  "Fields ''/dev/vg0/lv0 on /mnt/a type xfs (rw)'' =
     [''/dev/vg0/lv0'', ''on'', ''/mnt/a'', ''type'', ''xfs'', ''(rw)'']"
  by code_simp+

lemma run_tableHost:
  "run daemon tableHost ''mount'' emptyWorld = ((exampleTable, None), \<lparr>calls = [Exec ''mount''], logs = []\<rparr>)"
  by (simp add: run_def called_def daemon_def tableHost_def emptyWorld_def)

section \<open>The mount-state prober\<close>

lemma checkMount_lines_find:
  "checkMount_lines mountPath lines =
     (if \<exists>line\<in>set lines. 3 \<le> length (Fields line) \<and> Fields line ! 2 = mountPath
      then (ClientMountStateMounted, None) else (ClientMountStateUnmounted, None))"
  by (induction lines) (simp_all add: Let_def)

text \<open>
  C5. \<open>checkMount\<close> runs the mount-table query once. When the query succeeds it returns
  Mounted exactly when some line of the output, split at white space, has at least three
  fields and its third field is the queried path; otherwise Unmounted, with no error.
  It returns an error exactly when the query itself fails, and then the state is
  Unmounted.
\<close>

theorem checkMount_table:
  assumes "run r os ''mount'' w = ((output, err), w1)"
  shows "checkMount r os mountPath w =
           ((if err = None \<and> (\<exists>line\<in>set (Split output (CHR 0x0A)).
                                 3 \<le> length (Fields line) \<and> Fields line ! 2 = mountPath)
             then ClientMountStateMounted else ClientMountStateUnmounted,
             case err of None \<Rightarrow> None | Some e \<Rightarrow> Some (NewResourceError output (Some e))),
            w1)"
  using assms by (cases err) (simp_all add: checkMount_def checkMount_lines_find)

theorem checkMount_table_witness:
  "run daemon tableHost ''mount'' emptyWorld = ((exampleTable, None), \<lparr>calls = [Exec ''mount''], logs = []\<rparr>)
   \<and> checkMount daemon tableHost ''/mnt/a'' emptyWorld
       = ((ClientMountStateMounted, None), \<lparr>calls = [Exec ''mount''], logs = []\<rparr>)
   \<and> checkMount daemon tableHost ''/mnt'' emptyWorld
       = ((ClientMountStateUnmounted, None), \<lparr>calls = [Exec ''mount''], logs = []\<rparr>)"
  using run_tableHost
    checkMount_table [OF run_tableHost, of "''/mnt/a''"]
    checkMount_table [OF run_tableHost, of "''/mnt''"]
  by (simp add: Split_exampleTable Fields_exampleTable Fields_empty)

section \<open>The volume activator\<close>

lemma listingLines_examples:
  "listingLines activeListing = [[''lv0'', ''vg0'', ''-wi-a-----'', ''46.59g'']]"
  "listingLines inactiveListing =
     [[''lv1'', ''vg0'', ''-wi-a-----'', ''46.59g''], [''lv0'', ''vg0'', ''-wi-------'', ''46.59g'']]"
  "listingLines shortListing = [[''lv0'', ''vg0'', ''-wi'']]"
  "listingLines [] = [[]]"
  by code_simp+

lemma matchedLine_examples:
  "matchedLine activeListing exampleLVM = Some [''lv0'', ''vg0'', ''-wi-a-----'', ''46.59g'']"
  "matchedLine inactiveListing exampleLVM = Some [''lv0'', ''vg0'', ''-wi-------'', ''46.59g'']"
  "matchedLine shortListing exampleLVM = Some [''lv0'', ''vg0'', ''-wi'']"
  by (simp_all add: matchedLine_def listingLines_examples exampleLVM_def)

lemma configureLVMDevice_lines_find:
  "configureLVMDevice_lines r os (Some l) activate shared output lines w =
     (case find (\<lambda>flds. 3 \<le> length flds \<and> flds ! 0 = LogicalVolume l \<and> flds ! 1 = VolumeGroup l)
             (map Fields lines) of
        None \<Rightarrow>
          (let err = WithFatal (NewResourceError
                 (''Could not find VG/LV pair '' @ VolumeGroup l @ ''/'' @ LogicalVolume l @ '': '' @ output)
                 None)
           in (Ret (Some err), logged (LogInfoError err) w))
      | Some fs \<Rightarrow> configureLVMDevice_matched r os l activate shared fs w)"
  by (induction lines) (auto simp: Let_def)

lemma matchedLine_Some_length: "matchedLine output l = Some fs \<Longrightarrow> 3 \<le> length fs"
  unfolding matchedLine_def by (auto dest: find_Some_iff [THEN iffD1])

lemma run_Mock_matchedLine:
  assumes "run r os c w = ((output, err), w1)" and "Mock r"
  shows "matchedLine output l = None"
  using assms by (auto simp: run_def matchedLine_def listingLines_examples)

lemma run_calls:
  assumes "run r os c w = ((output, err), w1)" and "\<not> Mock r"
  shows "calls w1 = calls w @ [Exec c] \<and> logs w1 = logs w \<and> os (calls w) (Exec c) = (output, err)"
  using assms by (auto simp: run_def called_def)

lemma configureLVMDevice_matchedLine:
  assumes "run r os lvsCommand w = ((output, None), w1)"
    and "matchedLine output l = Some fs"
  shows "configureLVMDevice r os (Some l) activate shared w =
           configureLVMDevice_matched r os l activate shared fs w1"
proof -
  from assms have "\<not> Mock r"
    using run_Mock_matchedLine by fastforce
  with assms show ?thesis
    by (simp add: configureLVMDevice_def configureLVMDevice_lines_find matchedLine_def listingLines_def)
qed

lemma configureLVMDevice_matched_returns:
  assumes "4 < length (fs ! 2)"
  shows "\<exists>e. fst (configureLVMDevice_matched r os l activate shared fs w) = Ret e"
  using assms
  by (auto simp: configureLVMDevice_matched_def Let_def split: prod.splits option.splits)

text \<open>
  C10. \<open>configureLVMDevice\<close> reads byte 4 of the third field of the matched line of the
  listing, having checked only that the line has three fs. It panics with an index
  out of range exactly when that field has fewer than five bytes, and then right after
  the listing query.
\<close>

theorem configureLVMDevice_attribute_index:
  assumes "run r os lvsCommand w = ((output, None), w1)"
    and "matchedLine output l = Some fs"
  shows "3 \<le> length fs
         \<and> ((\<exists>p. fst (configureLVMDevice r os (Some l) activate shared w) = Panic p)
              = (length (fs ! 2) < 5))
         \<and> (length (fs ! 2) < 5 \<longrightarrow>
              configureLVMDevice r os (Some l) activate shared w
                = (Panic (IndexOutOfRange 4 (length (fs ! 2))), w1))"
proof -
  note eq = configureLVMDevice_matchedLine [OF assms, of activate shared]
  have short: "configureLVMDevice r os (Some l) activate shared w
                = (Panic (IndexOutOfRange 4 (length (fs ! 2))), w1)"
    if "length (fs ! 2) < 5"
    using that by (simp add: eq configureLVMDevice_matched_def)
  have long: "\<not> (\<exists>p. fst (configureLVMDevice r os (Some l) activate shared w) = Panic p)"
    if "\<not> length (fs ! 2) < 5"
  proof -
    from that have "4 < length (fs ! 2)" by simp
    from configureLVMDevice_matched_returns [OF this, of r os l activate shared w1]
    show ?thesis by (auto simp: eq)
  qed
  from short long matchedLine_Some_length [OF assms(2)] show ?thesis
    by (cases "length (fs ! 2) < 5") auto
qed

lemma run_shortHost:
  "run daemon shortHost lvsCommand emptyWorld = ((shortListing, None), \<lparr>calls = [Exec lvsCommand], logs = []\<rparr>)"
  by (simp add: run_def called_def daemon_def shortHost_def emptyWorld_def)

theorem configureLVMDevice_attribute_index_witness:
  "run daemon shortHost lvsCommand emptyWorld = ((shortListing, None), \<lparr>calls = [Exec lvsCommand], logs = []\<rparr>)
   \<and> matchedLine shortListing exampleLVM = Some [''lv0'', ''vg0'', ''-wi'']
   \<and> configureLVMDevice daemon shortHost (Some exampleLVM) True False emptyWorld
       = (Panic (IndexOutOfRange 4 3), \<lparr>calls = [Exec lvsCommand], logs = []\<rparr>)"
  using run_shortHost matchedLine_examples(3)
    configureLVMDevice_attribute_index [OF run_shortHost matchedLine_examples(3), of True False]
  by simp

text \<open>
  C4. When the matched line of the listing already shows the activation asked for
  (byte 4 of its attribute field is \<open>a\<close> exactly when \<open>activate\<close> holds),
  \<open>configureLVMDevice\<close> returns success and the world is the one the listing query
  left: the query is the only call, and no \<open>vgchange\<close> command is run. This holds for
  every call in such a state, so also for a second call with the same arguments.
\<close>

theorem configureLVMDevice_idempotent:
  assumes "run r os lvsCommand w = ((output, None), w1)"
    and "matchedLine output l = Some fs"
    and "4 < length (fs ! 2)"
    and "(fs ! 2 ! 4 = CHR ''a'') = activate"
  shows "configureLVMDevice r os (Some l) activate shared w = (Ret None, w1)
         \<and> calls w1 = calls w @ [Exec lvsCommand] \<and> logs w1 = logs w"
proof -
  from assms(1,2) have "\<not> Mock r"
    using run_Mock_matchedLine by fastforce
  from run_calls [OF assms(1) this] assms(3,4) show ?thesis
    by (auto simp: configureLVMDevice_matchedLine [OF assms(1,2)] configureLVMDevice_matched_def)
qed

lemma run_busyHost_lvs:
  "run daemon busyHost lvsCommand w = ((activeListing, None), called (Exec lvsCommand) w)"
  by (simp add: run_def daemon_def busyHost_def lvsCommand_def)

theorem configureLVMDevice_idempotent_witness:
  "run daemon busyHost lvsCommand emptyWorld = ((activeListing, None), \<lparr>calls = [Exec lvsCommand], logs = []\<rparr>)
   \<and> matchedLine activeListing exampleLVM = Some [''lv0'', ''vg0'', ''-wi-a-----'', ''46.59g'']
   \<and> configureLVMDevice daemon busyHost (Some exampleLVM) True True emptyWorld
       = (Ret None, \<lparr>calls = [Exec lvsCommand], logs = []\<rparr>)
   \<and> configureLVMDevice daemon busyHost (Some exampleLVM) True True \<lparr>calls = [Exec lvsCommand], logs = []\<rparr>
       = (Ret None, \<lparr>calls = [Exec lvsCommand, Exec lvsCommand], logs = []\<rparr>)"
proof -
  have r: "run daemon busyHost lvsCommand emptyWorld
            = ((activeListing, None), \<lparr>calls = [Exec lvsCommand], logs = []\<rparr>)"
    by (simp add: run_busyHost_lvs called_def emptyWorld_def)
  have r2: "run daemon busyHost lvsCommand \<lparr>calls = [Exec lvsCommand], logs = []\<rparr>
            = ((activeListing, None), \<lparr>calls = [Exec lvsCommand, Exec lvsCommand], logs = []\<rparr>)"
    by (simp add: run_busyHost_lvs called_def)
  show ?thesis
    using r matchedLine_examples(1)
      configureLVMDevice_idempotent [OF r matchedLine_examples(1), of True True]
      configureLVMDevice_idempotent [OF r2 matchedLine_examples(1), of True True]
    by simp
qed

lemma configureLVMDevice_matched_calls:
  assumes "\<not> Mock r"
  shows "\<exists>rest. calls (snd (configureLVMDevice_matched r os l activate shared fs w)) = calls w @ rest
           \<and> rest \<in>
               (if length (fs ! 2) \<le> 4 then {[]}
                else if activate \<and> fs ! 2 ! 4 \<noteq> CHR ''a'' then
                  (if shared
                   then {[Exec (''vgchange --lockstart '' @ VolumeGroup l)],
                         [Exec (''vgchange --lockstart '' @ VolumeGroup l),
                          Exec (''vgchange --activate sy '' @ VolumeGroup l)]}
                   else {[Exec (''vgchange --activate y '' @ VolumeGroup l)]})
                else if \<not> activate \<and> fs ! 2 ! 4 = CHR ''a'' then
                  (if shared
                   then {[Exec (''vgchange --activate n '' @ VolumeGroup l)],
                         [Exec (''vgchange --activate n '' @ VolumeGroup l),
                          Exec (''vgchange --lockstop '' @ VolumeGroup l)]}
                   else {[Exec (''vgchange --activate n '' @ VolumeGroup l)]})
                else {[]})"
  using assms
  by (auto simp: configureLVMDevice_matched_def Let_def run_def called_def
           split: prod.splits option.splits)

lemma configureLVMDevice_unmatched:
  assumes "run r os lvsCommand w = ((output, err), w1)"
    and "err \<noteq> None \<or> Mock r \<or> matchedLine output l = None"
  shows "snd (configureLVMDevice r os (Some l) activate shared w) = w1
         \<or> (\<exists>e. snd (configureLVMDevice r os (Some l) activate shared w) = logged e w1)"
  using assms
  by (cases err)
     (auto simp: configureLVMDevice_def configureLVMDevice_lines_find matchedLine_def listingLines_def
                 Let_def)

text \<open>
  C3. The commands of one call of \<open>configureLVMDevice\<close>, in the order they are run:
  the listing query, then nothing, or for a shared activation the lock start followed
  (when it succeeded) by the activation with the shared option, or for a shared
  deactivation the deactivation followed (when it succeeded) by the lock stop; the
  forms without the lock commands when the volume is not shared. When the matched line
  shows a shared volume inactive and activation is asked for, the lock start is the
  first command after the query, and when it shows it active and deactivation is asked
  for, the deactivation is. No other order occurs.
\<close>

theorem configureLVMDevice_command_order:
  "\<exists>cmds. calls (snd (configureLVMDevice r os (Some l) activate shared w)) = calls w @ cmds
     \<and> (Mock r \<longrightarrow> cmds = [])
     \<and> (\<not> Mock r \<longrightarrow>
          (\<exists>rest. cmds = Exec lvsCommand # rest
             \<and> rest \<in>
                 (if activate then
                    (if shared
                     then {[], [Exec (''vgchange --lockstart '' @ VolumeGroup l)],
                           [Exec (''vgchange --lockstart '' @ VolumeGroup l),
                            Exec (''vgchange --activate sy '' @ VolumeGroup l)]}
                     else {[], [Exec (''vgchange --activate y '' @ VolumeGroup l)]})
                  else
                    (if shared
                     then {[], [Exec (''vgchange --activate n '' @ VolumeGroup l)],
                           [Exec (''vgchange --activate n '' @ VolumeGroup l),
                            Exec (''vgchange --lockstop '' @ VolumeGroup l)]}
                     else {[], [Exec (''vgchange --activate n '' @ VolumeGroup l)]}))
             \<and> (\<forall>output fs.
                   os (calls w) (Exec lvsCommand) = (output, None) \<and> matchedLine output l = Some fs
                   \<and> 4 < length (fs ! 2) \<and> shared \<and> activate = (fs ! 2 ! 4 \<noteq> CHR ''a'') \<longrightarrow>
                   rest \<noteq> [])))"
proof (cases "Mock r")
  case True
  obtain out err w1 where run: "run r os lvsCommand w = ((out, err), w1)"
    by (metis prod.exhaust)
  from run True have "calls w1 = calls w"
    by (auto simp: run_def logged_def)
  moreover from configureLVMDevice_unmatched [OF run, of l activate shared] True
  have "calls (snd (configureLVMDevice r os (Some l) activate shared w)) = calls w1"
    by (auto simp: logged_def)
  ultimately show ?thesis using True by simp
next
  case False
  obtain out err w1 where run: "run r os lvsCommand w = ((out, err), w1)"
    by (metis prod.exhaust)
  note rc = run_calls [OF run False]
  show ?thesis
  proof (cases "err = None \<and> matchedLine out l \<noteq> None")
    case no: False
    from configureLVMDevice_unmatched [OF run, of l activate shared] no
    have "calls (snd (configureLVMDevice r os (Some l) activate shared w)) = calls w1"
      by (auto simp: logged_def)
    with rc have "calls (snd (configureLVMDevice r os (Some l) activate shared w))
                    = calls w @ [Exec lvsCommand]"
      by simp
    moreover from no rc have
      "\<forall>output' fs. os (calls w) (Exec lvsCommand) = (output', None) \<and> matchedLine output' l = Some fs
          \<longrightarrow> False"
      by auto
    ultimately show ?thesis using False by auto
  next
    case yes: True
    then obtain fs where err: "err = None" and m: "matchedLine out l = Some fs"
      by auto
    from run err have run': "run r os lvsCommand w = ((out, None), w1)" by simp
    note eq = configureLVMDevice_matchedLine [OF run' m, of activate shared]
    from configureLVMDevice_matched_calls [OF False, of os l activate shared fs w1]
    obtain rest where
      c: "calls (snd (configureLVMDevice_matched r os l activate shared fs w1)) = calls w1 @ rest"
      and r: "rest \<in>
               (if length (fs ! 2) \<le> 4 then {[]}
                else if activate \<and> fs ! 2 ! 4 \<noteq> CHR ''a'' then
                  (if shared
                   then {[Exec (''vgchange --lockstart '' @ VolumeGroup l)],
                         [Exec (''vgchange --lockstart '' @ VolumeGroup l),
                          Exec (''vgchange --activate sy '' @ VolumeGroup l)]}
                   else {[Exec (''vgchange --activate y '' @ VolumeGroup l)]})
                else if \<not> activate \<and> fs ! 2 ! 4 = CHR ''a'' then
                  (if shared
                   then {[Exec (''vgchange --activate n '' @ VolumeGroup l)],
                         [Exec (''vgchange --activate n '' @ VolumeGroup l),
                          Exec (''vgchange --lockstop '' @ VolumeGroup l)]}
                   else {[Exec (''vgchange --activate n '' @ VolumeGroup l)]})
                else {[]})"
      by blast
    from c rc eq have total:
      "calls (snd (configureLVMDevice r os (Some l) activate shared w))
         = calls w @ Exec lvsCommand # rest"
      by simp
    have allowed: "rest \<in>
                 (if activate then
                    (if shared
                     then {[], [Exec (''vgchange --lockstart '' @ VolumeGroup l)],
                           [Exec (''vgchange --lockstart '' @ VolumeGroup l),
                            Exec (''vgchange --activate sy '' @ VolumeGroup l)]}
                     else {[], [Exec (''vgchange --activate y '' @ VolumeGroup l)]})
                  else
                    (if shared
                     then {[], [Exec (''vgchange --activate n '' @ VolumeGroup l)],
                           [Exec (''vgchange --activate n '' @ VolumeGroup l),
                            Exec (''vgchange --lockstop '' @ VolumeGroup l)]}
                     else {[], [Exec (''vgchange --activate n '' @ VolumeGroup l)]}))"
      using r by (auto split: if_splits)
    have first: "rest \<noteq> []"
      if "os (calls w) (Exec lvsCommand) = (output', None)" and "matchedLine output' l = Some fs'"
        and "4 < length (fs' ! 2)" and "shared" and "activate = (fs' ! 2 ! 4 \<noteq> CHR ''a'')"
      for output' fs'
    proof -
      from that(1) rc have "output' = out" by simp
      with that(2) m have "fs' = fs" by simp
      with that r show ?thesis by (auto split: if_splits)
    qed
    from total allowed first False show ?thesis
      by (intro exI [of _ "Exec lvsCommand # rest"]) blast
  qed
qed

lemma run_idleHost_lvs:
  "run daemon idleHost lvsCommand w = ((inactiveListing, None), called (Exec lvsCommand) w)"
  by (simp add: run_def daemon_def idleHost_def lvsCommand_def)

lemma configureLVMDevice_idleHost:
  "configureLVMDevice daemon idleHost (Some exampleLVM) True True w =
     (Ret None,
      w\<lparr>calls := calls w @ [Exec lvsCommand, Exec ''vgchange --lockstart vg0'',
                              Exec ''vgchange --activate sy vg0'']\<rparr>)"
  by (subst configureLVMDevice_matchedLine [OF run_idleHost_lvs matchedLine_examples(2)])
     (simp add: configureLVMDevice_matched_def run_def called_def daemon_def idleHost_def
        lvsCommand_def exampleLVM_def)

lemma configureLVMDevice_busyHost:
  "configureLVMDevice daemon busyHost (Some exampleLVM) False True w =
     (Ret None,
      w\<lparr>calls := calls w @ [Exec lvsCommand, Exec ''vgchange --activate n vg0'',
                              Exec ''vgchange --lockstop vg0'']\<rparr>)"
  by (subst configureLVMDevice_matchedLine [OF run_busyHost_lvs matchedLine_examples(1)])
     (simp add: configureLVMDevice_matched_def run_def called_def daemon_def busyHost_def
        lvsCommand_def exampleLVM_def)

theorem configureLVMDevice_command_order_witness:
  "\<not> Mock daemon
   \<and> idleHost (calls emptyWorld) (Exec lvsCommand) = (inactiveListing, None)
   \<and> matchedLine inactiveListing exampleLVM = Some [''lv0'', ''vg0'', ''-wi-------'', ''46.59g'']
   \<and> calls (snd (configureLVMDevice daemon idleHost (Some exampleLVM) True True emptyWorld))
       = [Exec lvsCommand, Exec ''vgchange --lockstart vg0'', Exec ''vgchange --activate sy vg0'']
   \<and> busyHost (calls emptyWorld) (Exec lvsCommand) = (activeListing, None)
   \<and> matchedLine activeListing exampleLVM = Some [''lv0'', ''vg0'', ''-wi-a-----'', ''46.59g'']
   \<and> calls (snd (configureLVMDevice daemon busyHost (Some exampleLVM) False True emptyWorld))
       = [Exec lvsCommand, Exec ''vgchange --activate n vg0'', Exec ''vgchange --lockstop vg0'']"
  using configureLVMDevice_command_order [of daemon idleHost exampleLVM True True emptyWorld]
    configureLVMDevice_command_order [of daemon busyHost exampleLVM False True emptyWorld]
  by (simp add: configureLVMDevice_idleHost configureLVMDevice_busyHost matchedLine_examples
        emptyWorld_def idleHost_def busyHost_def)
     (simp add: daemon_def lvsCommand_def)

section \<open>The device resolver\<close>

lemma Split_no_sep: "sep \<notin> set s \<Longrightarrow> Split s sep = [s]"
  by (induction s) auto

lemma Split_append_sep: "sep \<notin> set a \<Longrightarrow> Split (a @ sep # b) sep = a # Split b sep"
  by (induction a) auto

lemma filepath_Join_dev:
  assumes "plainName vg" and "plainName lv"
  shows "filepath_Join [''/dev'', vg, lv] = ''/dev/'' @ vg @ ''/'' @ lv"
proof -
  have s: "Split (''/dev/'' @ vg @ ''/'' @ lv) (CHR ''/'') = [[], ''dev'', vg, lv]"
    using assms Split_append_sep [of "CHR ''/''" "[]" "''dev/'' @ vg @ ''/'' @ lv"]
      Split_append_sep [of "CHR ''/''" "''dev''" "vg @ ''/'' @ lv"]
      Split_append_sep [of "CHR ''/''" vg lv] Split_no_sep [of "CHR ''/''" lv]
    by (simp add: plainName_def)
  from assms have "cleanElems True [] [[], ''dev'', vg, lv] = [''dev'', vg, lv]"
    by (simp add: plainName_def)
  with s show ?thesis
    by (simp add: Clean_def)
qed

text \<open>
  C6, as the code has it. For a Lustre device \<open>getDevice\<close> returns the MGS addresses,
  \<open>:/\<close> and the file system name, and leaves the world untouched. For an LVM device it
  runs \<open>configureLVMDevice\<close> to activate the volume, shared exactly when the file system
  type is \<open>gfs2\<close>; when that returns an error \<open>getDevice\<close> returns it with an empty
  path, and when it succeeds \<open>getDevice\<close> returns \<open>filepath.Join("/dev", vg, lv)\<close>, which
  is \<open>/dev/vg/lv\<close> when both names are plain path elements. For any other device tag the
  result is the error "Invalid device type", with no call to the host.
\<close>

theorem getDevice_resolves:
  "(DeviceType (Device m) = ClientMountDeviceTypeLustre \<and> Lustre (Device m) = Some lu \<longrightarrow>
      getDevice r os m w = (Ret (MgsAddresses lu @ '':/'' @ FileSystemName lu, None), w))
   \<and> (DeviceType (Device m) = ClientMountDeviceTypeLVM \<and> LVM (Device m) = Some l \<longrightarrow>
        (\<forall>w1. configureLVMDevice r os (Some l) True (Type m = ''gfs2'') w = (Ret None, w1) \<longrightarrow>
              getDevice r os m w
                = (Ret (filepath_Join [''/dev'', VolumeGroup l, LogicalVolume l], None), w1))
        \<and> (\<forall>e w1. configureLVMDevice r os (Some l) True (Type m = ''gfs2'') w = (Ret (Some e), w1) \<longrightarrow>
              getDevice r os m w = (Ret ([], Some e), w1))
        \<and> (plainName (VolumeGroup l) \<and> plainName (LogicalVolume l) \<longrightarrow>
              filepath_Join [''/dev'', VolumeGroup l, LogicalVolume l]
                = ''/dev/'' @ VolumeGroup l @ ''/'' @ LogicalVolume l))
   \<and> (DeviceType (Device m) = ClientMountDeviceTypeOther t \<longrightarrow>
        getDevice r os m w = (Ret ([], Some (Errorf ''Invalid device type'')), w))"
  by (auto simp: getDevice_def filepath_Join_dev simp del: filepath_Join.simps)

lemma configureLVMDevice_idleHost_unshared:
  "configureLVMDevice daemon idleHost (Some exampleLVM) True False w =
     (Ret None, w\<lparr>calls := calls w @ [Exec lvsCommand, Exec ''vgchange --activate y vg0'']\<rparr>)"
  by (subst configureLVMDevice_matchedLine [OF run_idleHost_lvs matchedLine_examples(2)])
     (simp add: configureLVMDevice_matched_def run_def called_def daemon_def idleHost_def
        lvsCommand_def exampleLVM_def)

theorem getDevice_resolves_witness:
  "getDevice daemon idleHost (lustreMount ''/mnt/a'') emptyWorld = (Ret (''mgs@tcp:/fs1'', None), emptyWorld)
   \<and> plainName ''vg0'' \<and> plainName ''lv0''
   \<and> configureLVMDevice daemon idleHost (Some exampleLVM) True (Type exampleMount = ''gfs2'') emptyWorld
       = (Ret None, \<lparr>calls = [Exec lvsCommand, Exec ''vgchange --activate y vg0''], logs = []\<rparr>)
   \<and> getDevice daemon idleHost exampleMount emptyWorld
       = (Ret (''/dev/vg0/lv0'', None),
          \<lparr>calls = [Exec lvsCommand, Exec ''vgchange --activate y vg0''], logs = []\<rparr>)
   \<and> getDevice daemon idleHost otherMount emptyWorld
       = (Ret ([], Some (Errorf ''Invalid device type'')), emptyWorld)"
proof -
  let ?w1 = "\<lparr>calls = [Exec lvsCommand, Exec ''vgchange --activate y vg0''], logs = []\<rparr>"
  have p: "plainName ''vg0''" "plainName ''lv0''"
    by (simp_all add: plainName_def)
  have c: "configureLVMDevice daemon idleHost (Some exampleLVM) True (Type exampleMount = ''gfs2'') emptyWorld
             = (Ret None, ?w1)"
    by (simp add: exampleMount_def configureLVMDevice_idleHost_unshared emptyWorld_def)
  have 1: "DeviceType (Device (lustreMount ''/mnt/a'')) = ClientMountDeviceTypeLustre
           \<and> Lustre (Device (lustreMount ''/mnt/a''))
               = Some \<lparr>MgsAddresses = ''mgs@tcp'', FileSystemName = ''fs1''\<rparr>"
    by (simp add: lustreMount_def)
  have 2: "DeviceType (Device exampleMount) = ClientMountDeviceTypeLVM
           \<and> LVM (Device exampleMount) = Some exampleLVM"
    by (simp add: exampleMount_def)
  have 3: "DeviceType (Device otherMount) = ClientMountDeviceTypeOther ''reference''"
    by (simp add: otherMount_def exampleMount_def)
  from getDevice_resolves [of "lustreMount ''/mnt/a''" _ daemon idleHost emptyWorld] 1
  have a: "getDevice daemon idleHost (lustreMount ''/mnt/a'') emptyWorld
             = (Ret (''mgs@tcp:/fs1'', None), emptyWorld)"
    by simp
  from getDevice_resolves [of exampleMount _ daemon idleHost emptyWorld exampleLVM] 2 c p
  have b: "getDevice daemon idleHost exampleMount emptyWorld = (Ret (''/dev/vg0/lv0'', None), ?w1)"
    by (simp add: exampleLVM_def del: filepath_Join.simps)
  from getDevice_resolves [of otherMount _ daemon idleHost emptyWorld _ "''reference''"] 3
  have d: "getDevice daemon idleHost otherMount emptyWorld
             = (Ret ([], Some (Errorf ''Invalid device type'')), emptyWorld)"
    by simp
  from a b c d p show ?thesis by simp
qed

theorem getDevice_resolves_counterexample:
  "getDevice daemon brokenHost exampleMount emptyWorld
     = (Ret ([], Some (ExternalError ''exit status 127'')), \<lparr>calls = [Exec lvsCommand], logs = []\<rparr>)
   \<and> getDevice daemon dotHost dotMount emptyWorld
     = (Ret (''/dev/lv0'', None), \<lparr>calls = [Exec lvsCommand], logs = []\<rparr>)
   \<and> ''/dev/lv0'' \<noteq> ''/dev/'' @ ''.'' @ ''/'' @ ''lv0''
   \<and> getDevice daemon idleHost otherMount emptyWorld
     \<noteq> (Ret ([], Some (Errorf ''invalid device type'')), emptyWorld)"
proof -
  have f: "Fields ''lv0 . -wi-a-----'' = [''lv0'', ''.'', ''-wi-a-----'']"
    by code_simp
  have j: "filepath_Join [''/dev'', ''.'', ''lv0''] = ''/dev/lv0''"
    by code_simp
  have 1: "getDevice daemon brokenHost exampleMount emptyWorld
     = (Ret ([], Some (ExternalError ''exit status 127'')), \<lparr>calls = [Exec lvsCommand], logs = []\<rparr>)"
    by (simp add: getDevice_def exampleMount_def configureLVMDevice_def run_def daemon_def
          brokenHost_def called_def emptyWorld_def)
  have 2: "getDevice daemon dotHost dotMount emptyWorld
     = (Ret (''/dev/lv0'', None), \<lparr>calls = [Exec lvsCommand], logs = []\<rparr>)"
    by (simp add: getDevice_def dotMount_def exampleMount_def configureLVMDevice_def run_def daemon_def
          dotHost_def called_def emptyWorld_def TrimSuffix_def f j configureLVMDevice_matched_def
          del: filepath_Join.simps)
  have 3: "getDevice daemon idleHost otherMount emptyWorld
     \<noteq> (Ret ([], Some (Errorf ''invalid device type'')), emptyWorld)"
    by (simp add: getDevice_def otherMount_def exampleMount_def)
  from 1 2 3 show ?thesis by simp
qed

section \<open>The mount executor\<close>

lemma checkMount_Mounted_calls:
  assumes "checkMount r os mountPath w = ((ClientMountStateMounted, e), w1)"
  shows "\<not> Mock r \<and> calls w1 = calls w @ [Exec ''mount''] \<and> logs w1 = logs w"
proof (cases "Mock r")
  case True
  then have "checkMount r os mountPath w =
      ((ClientMountStateUnmounted, None), logged (LogInfo ''Run'' [''Command'', ''mount'']) w)"
    by (simp add: checkMount_def run_def Fields_empty)
  with assms show ?thesis by simp
next
  case False
  then have "snd (checkMount r os mountPath w) = called (Exec ''mount'') w"
    by (simp add: checkMount_def run_def split: prod.splits option.splits)
  with assms False show ?thesis by (simp add: called_def)
qed

text \<open>
  C7. When the prober reports the mount path as mounted, \<open>mount\<close> returns success and
  leaves the world as the single probe left it, but for the log entry "Already
  mounted": the only call to the host is the one mount-table query, so there is no device
  resolution, no volume activation, no directory or file creation and no mount command.
\<close>

theorem mount_already_mounted:
  assumes "checkMount r os (MountPath m) w = ((ClientMountStateMounted, None), w1)"
  shows "mount r os m w = (Ret None, logged (LogInfo ''Already mounted'' []) w1)
         \<and> calls (snd (mount r os m w)) = calls w @ [Exec ''mount'']
         \<and> logs (snd (mount r os m w)) = logs w @ [LogInfo ''Already mounted'' []]"
proof -
  have m: "mount r os m w = (Ret None, logged (LogInfo ''Already mounted'' []) w1)"
    using assms by (simp add: mount_def)
  from checkMount_Mounted_calls [OF assms]
  have "calls w1 = calls w @ [Exec ''mount'']" and "logs w1 = logs w"
    by simp_all
  with m show ?thesis by (simp add: logged_def)
qed

lemma checkMount_tableHost:
  "checkMount daemon tableHost ''/mnt/a'' emptyWorld
     = ((ClientMountStateMounted, None), \<lparr>calls = [Exec ''mount''], logs = []\<rparr>)"
  by (simp add: checkMount_def run_tableHost checkMount_lines_find Split_exampleTable
        Fields_exampleTable Fields_empty)

theorem mount_already_mounted_witness:
  "checkMount daemon tableHost (MountPath exampleMount) emptyWorld
     = ((ClientMountStateMounted, None), \<lparr>calls = [Exec ''mount''], logs = []\<rparr>)
   \<and> mount daemon tableHost exampleMount emptyWorld
     = (Ret None, \<lparr>calls = [Exec ''mount''], logs = [LogInfo ''Already mounted'' []]\<rparr>)"
proof -
  have h: "checkMount daemon tableHost (MountPath exampleMount) emptyWorld
     = ((ClientMountStateMounted, None), \<lparr>calls = [Exec ''mount''], logs = []\<rparr>)"
    using checkMount_tableHost by (simp add: exampleMount_def)
  show ?thesis
    using h mount_already_mounted [OF h] by (simp add: logged_def)
qed

text \<open>
  C8. When the probe succeeds, the unmount command (run when the path was mounted)
  succeeds and the deactivation of the volume (run when the device is volume-backed)
  succeeds, \<open>unmount\<close> returns success whatever the removal of the mount directory
  returns: an error of the removal is logged and not returned, and a pass over that
  entry alone sets its \<open>Ready\<close> flag.
\<close>

theorem unmount_ignores_rmdir_failure:
  assumes probe: "checkMount r os (MountPath m) w = ((state, None), w1)"
    and umount: "if state = ClientMountStateMounted
                 then \<exists>output. run r os (''umount '' @ MountPath m) w1 = ((output, None), w2)
                 else w2 = w1"
    and deactivate: "if DeviceType (Device m) = ClientMountDeviceTypeLVM
                 then configureLVMDevice r os (LVM (Device m)) False (Type m = ''gfs2'') w2 = (Ret None, w3)
                 else w3 = w2"
    and remove: "rmdir r os (MountPath m) w3 = (res, w4)"
  shows "fst (unmount r os m w) = Ret None
         \<and> calls (snd (unmount r os m w)) = calls w4
         \<and> logs (snd (unmount r os m w)) =
             logs w4 @ (case res of
                          None \<Rightarrow> []
                        | Some err \<Rightarrow> [LogError err ''Unable to remove mount directory'' [''Path'', MountPath m]])
                     @ [LogInfo ''Unmounted file system'' [''mount path'', MountPath m]]
         \<and> (\<forall>clientMount s. Mounts (Spec clientMount) = [m] \<and> StatusMounts (Status clientMount) = [s] \<longrightarrow>
               fst (unmountAll r os clientMount w) = Ret None
               \<and> StatusMounts (Status (fst (snd (unmountAll r os clientMount w)))) = [s\<lparr>Ready := True\<rparr>])"
proof -
  have u: "unmount r os m w =
     (Ret None,
      logged (LogInfo ''Unmounted file system'' [''mount path'', MountPath m])
        (case res of
           None \<Rightarrow> w4
         | Some err \<Rightarrow> logged (LogError err ''Unable to remove mount directory'' [''Path'', MountPath m]) w4))"
    using assms by (cases res) (auto simp: unmount_def split: if_splits)
  have a: "fst (unmountAll r os clientMount w) = Ret None
           \<and> StatusMounts (Status (fst (snd (unmountAll r os clientMount w)))) = [s\<lparr>Ready := True\<rparr>]"
    if "Mounts (Spec clientMount) = [m]" and "StatusMounts (Status clientMount) = [s]"
    for clientMount s
    using that by (simp add: unmountAll_def u setReady_def)
  from u a show ?thesis
    by (cases res) (simp_all add: logged_def)
qed

lemma checkMount_busyHost:
  "checkMount daemon busyHost ''/mnt/a'' emptyWorld
     = ((ClientMountStateMounted, None), \<lparr>calls = [Exec ''mount''], logs = []\<rparr>)"
proof -
  have "run daemon busyHost ''mount'' emptyWorld
          = ((exampleTable, None), \<lparr>calls = [Exec ''mount''], logs = []\<rparr>)"
    by (simp add: run_def called_def daemon_def busyHost_def emptyWorld_def)
  then show ?thesis
    by (simp add: checkMount_def checkMount_lines_find Split_exampleTable Fields_exampleTable
          Fields_empty)
qed

theorem unmount_ignores_rmdir_failure_witness:
  "checkMount daemon busyHost (MountPath clusteredMount) emptyWorld
     = ((ClientMountStateMounted, None), \<lparr>calls = [Exec ''mount''], logs = []\<rparr>)
   \<and> run daemon busyHost (''umount '' @ MountPath clusteredMount) \<lparr>calls = [Exec ''mount''], logs = []\<rparr>
     = (([], None), \<lparr>calls = [Exec ''mount'', Exec ''umount /mnt/a''], logs = []\<rparr>)
   \<and> configureLVMDevice daemon busyHost (LVM (Device clusteredMount)) False (Type clusteredMount = ''gfs2'')
       \<lparr>calls = [Exec ''mount'', Exec ''umount /mnt/a''], logs = []\<rparr>
     = (Ret None,
        \<lparr>calls = [Exec ''mount'', Exec ''umount /mnt/a'', Exec lvsCommand,
                  Exec ''vgchange --activate n vg0'', Exec ''vgchange --lockstop vg0''], logs = []\<rparr>)
   \<and> rmdir daemon busyHost (MountPath clusteredMount)
       \<lparr>calls = [Exec ''mount'', Exec ''umount /mnt/a'', Exec lvsCommand,
                 Exec ''vgchange --activate n vg0'', Exec ''vgchange --lockstop vg0''], logs = []\<rparr>
     = (Some (ExternalError ''device or resource busy''),
        \<lparr>calls = [Exec ''mount'', Exec ''umount /mnt/a'', Exec lvsCommand,
                  Exec ''vgchange --activate n vg0'', Exec ''vgchange --lockstop vg0'', Remove ''/mnt/a''],
         logs = []\<rparr>)
   \<and> fst (unmount daemon busyHost clusteredMount emptyWorld) = Ret None
   \<and> calls (snd (unmount daemon busyHost clusteredMount emptyWorld))
     = [Exec ''mount'', Exec ''umount /mnt/a'', Exec lvsCommand,
        Exec ''vgchange --activate n vg0'', Exec ''vgchange --lockstop vg0'', Remove ''/mnt/a'']
   \<and> logs (snd (unmount daemon busyHost clusteredMount emptyWorld))
     = [LogError (ExternalError ''device or resource busy'') ''Unable to remove mount directory''
          [''Path'', ''/mnt/a''],
        LogInfo ''Unmounted file system'' [''mount path'', ''/mnt/a'']]"
proof -
  let ?w1 = "\<lparr>calls = [Exec ''mount''], logs = []\<rparr>"
  let ?w2 = "\<lparr>calls = [Exec ''mount'', Exec ''umount /mnt/a''], logs = []\<rparr>"
  let ?w3 = "\<lparr>calls = [Exec ''mount'', Exec ''umount /mnt/a'', Exec lvsCommand,
                  Exec ''vgchange --activate n vg0'', Exec ''vgchange --lockstop vg0''], logs = []\<rparr>"
  let ?w4 = "\<lparr>calls = [Exec ''mount'', Exec ''umount /mnt/a'', Exec lvsCommand,
                  Exec ''vgchange --activate n vg0'', Exec ''vgchange --lockstop vg0'', Remove ''/mnt/a''],
              logs = []\<rparr>"
  have p: "checkMount daemon busyHost (MountPath clusteredMount) emptyWorld
             = ((ClientMountStateMounted, None), ?w1)"
    using checkMount_busyHost by (simp add: clusteredMount_def exampleMount_def)
  have u: "run daemon busyHost (''umount '' @ MountPath clusteredMount) ?w1 = (([], None), ?w2)"
    by (simp add: run_def called_def daemon_def busyHost_def lvsCommand_def clusteredMount_def
          exampleMount_def)
  have d: "configureLVMDevice daemon busyHost (LVM (Device clusteredMount)) False
             (Type clusteredMount = ''gfs2'') ?w2 = (Ret None, ?w3)"
    by (simp add: configureLVMDevice_busyHost clusteredMount_def exampleMount_def)
  have r: "rmdir daemon busyHost (MountPath clusteredMount) ?w3
             = (Some (ExternalError ''device or resource busy''), ?w4)"
    by (simp add: rmdir_def called_def daemon_def busyHost_def clusteredMount_def exampleMount_def)
  have u': "if ClientMountStateMounted = ClientMountStateMounted
            then \<exists>output. run daemon busyHost (''umount '' @ MountPath clusteredMount) ?w1
                            = ((output, None), ?w2)
            else ?w2 = ?w1"
    using u by simp
  have d': "if DeviceType (Device clusteredMount) = ClientMountDeviceTypeLVM
            then configureLVMDevice daemon busyHost (LVM (Device clusteredMount)) False
                   (Type clusteredMount = ''gfs2'') ?w2 = (Ret None, ?w3)
            else ?w3 = ?w2"
    using d by (simp add: clusteredMount_def exampleMount_def)
  from unmount_ignores_rmdir_failure [OF p u' d' r] p u d r show ?thesis
    by (simp add: clusteredMount_def exampleMount_def)
qed

section \<open>The passes over all entries\<close>

lemma markReady_Nil: "markReady sts [] = sts"
  by (simp add: markReady_def)

lemma markReady_Cons: "markReady (s # sts) (e # es) = s\<lparr>Ready := (e = None)\<rparr> # markReady sts es"
  by (simp add: markReady_def)

lemma length_markReady: "length es \<le> length sts \<Longrightarrow> length (markReady sts es) = length sts"
  by (simp add: markReady_def)

lemma nth_markReady:
  "i < length es \<Longrightarrow> length es \<le> length sts \<Longrightarrow> markReady sts es ! i = (sts ! i)\<lparr>Ready := (es ! i = None)\<rparr>"
  by (simp add: markReady_def nth_append)

lemma perEntry_length: "perEntry each ms w = ((es, None), w1) \<Longrightarrow> length es = length ms"
  by (induction ms arbitrary: w es)
     (auto split: prod.splits outcome.splits)

lemma firstError_None: "(firstError es = None) = (\<forall>e\<in>set es. e = None)"
  by (induction es rule: firstError.induct) auto

lemma firstError_first:
  "i < length es \<Longrightarrow> es ! i \<noteq> None \<Longrightarrow> \<forall>j<i. es ! j = None \<Longrightarrow> firstError es = es ! i"
proof (induction es arbitrary: i rule: firstError.induct)
  case 1
  then show ?case by simp
next
  case (2 es)
  then obtain k where i: "i = Suc k" by (cases i) auto
  with "2.prems" have "k < length es" "es ! k \<noteq> None" "\<forall>j<k. es ! j = None"
    by auto
  with "2.IH" i show ?case by simp
next
  case (3 e es)
  then have "i = 0" by (cases i) auto
  then show ?case by simp
qed

text \<open>
  The loop of \<open>mountAll\<close> is the fold \<open>perEntry\<close>: from index \<open>i\<close> on, the status
  entries take the flags of the results, and the first error is kept.
\<close>

lemma mountAll_loop_perEntry:
  assumes "i + length ms \<le> length (StatusMounts (Status cm))"
  shows "mountAll_loop r os i fe ms cm w =
           (case perEntry (mount r os) ms w of
              ((es, p), w1) \<Rightarrow>
                ((case p of
                    None \<Rightarrow> Ret (if fe = None then firstError es else fe)
                  | Some q \<Rightarrow> Panic q),
                 cm\<lparr>Status := (Status cm)
                      \<lparr>StatusMounts := take i (StatusMounts (Status cm))
                                          @ markReady (drop i (StatusMounts (Status cm))) es\<rparr>\<rparr>,
                 w1))"
  using assms
proof (induction ms arbitrary: i fe cm w)
  case Nil
  show ?case by (simp add: markReady_Nil)
next
  case (Cons m ms)
  let ?sts = "StatusMounts (Status cm)"
  from Cons.prems have i: "i < length ?sts" by simp
  from i have d: "drop i ?sts = ?sts ! i # drop (Suc i) ?sts"
    by (simp add: Cons_nth_drop_Suc)
  obtain res w1 where m: "mount r os m w = (res, w1)" by (cases "mount r os m w")
  show ?case
  proof (cases res)
    case (Panic q)
    with m show ?thesis by (simp add: markReady_Nil)
  next
    case (Ret e)
    define b where "b = (e = None)"
    define fe1 where "fe1 = (case e of None \<Rightarrow> fe | Some err \<Rightarrow> if fe = None then Some err else fe)"
    define sts1 where "sts1 = ?sts[i := (?sts ! i)\<lparr>Ready := b\<rparr>]"
    define cm1 where "cm1 = cm\<lparr>Status := (Status cm)\<lparr>StatusMounts := sts1\<rparr>\<rparr>"
    have s: "setReady i (e = None) cm = Ret cm1"
      using i by (simp add: setReady_def Let_def cm1_def sts1_def b_def)
    have step: "mountAll_loop r os i fe (m # ms) cm w = mountAll_loop r os (Suc i) fe1 ms cm1 w1"
    proof (cases e)
      case None
      with m Ret s show ?thesis by (simp add: fe1_def)
    next
      case (Some err)
      with m Ret s show ?thesis by (simp add: fe1_def)
    qed
    have c: "StatusMounts (Status cm1) = sts1" and c': "Status cm1 = (Status cm)\<lparr>StatusMounts := sts1\<rparr>"
      by (simp_all add: cm1_def)
    have "Suc i + length ms \<le> length (StatusMounts (Status cm1))"
      using Cons.prems by (simp add: c sts1_def)
    note IH = Cons.IH [OF this, of fe1 w1]
    obtain es p w2 where pe: "perEntry (mount r os) ms w1 = ((es, p), w2)"
      by (metis prod.exhaust)
    have lists: "take (Suc i) sts1 @ markReady (drop (Suc i) sts1) es
                  = take i ?sts @ markReady (drop i ?sts) (e # es)"
      unfolding sts1_def using i d by (simp add: take_Suc_conv_app_nth markReady_Cons b_def)
    have errs: "(if fe1 = None then firstError es else fe1) = (if fe = None then firstError (e # es) else fe)"
      by (cases e) (auto simp: fe1_def)
    have upd: "cm1\<lparr>Status := (Status cm1)\<lparr>StatusMounts := xs\<rparr>\<rparr> = cm\<lparr>Status := (Status cm)\<lparr>StatusMounts := xs\<rparr>\<rparr>"
      for xs by (simp add: cm1_def)
    have "mountAll_loop r os (Suc i) fe1 ms cm1 w1 =
            ((case p of None \<Rightarrow> Ret (if fe = None then firstError (e # es) else fe) | Some q \<Rightarrow> Panic q),
             cm\<lparr>Status := (Status cm)\<lparr>StatusMounts := take i ?sts @ markReady (drop i ?sts) (e # es)\<rparr>\<rparr>,
             w2)"
      unfolding IH pe c by (simp only: prod.case lists errs upd)
    moreover have "perEntry (mount r os) (m # ms) w = ((e # es, p), w2)"
      using m Ret pe by simp
    ultimately show ?thesis
      unfolding step by (simp only: prod.case)
  qed
qed

lemma unmountAll_loop_perEntry:
  assumes "i + length ms \<le> length (StatusMounts (Status cm))"
  shows "unmountAll_loop r os i fe ms cm w =
           (case perEntry (unmount r os) ms w of
              ((es, p), w1) \<Rightarrow>
                ((case p of
                    None \<Rightarrow> Ret (if fe = None then firstError es else fe)
                  | Some q \<Rightarrow> Panic q),
                 cm\<lparr>Status := (Status cm)
                      \<lparr>StatusMounts := take i (StatusMounts (Status cm))
                                          @ markReady (drop i (StatusMounts (Status cm))) es\<rparr>\<rparr>,
                 w1))"
  using assms
proof (induction ms arbitrary: i fe cm w)
  case Nil
  show ?case by (simp add: markReady_Nil)
next
  case (Cons m ms)
  let ?sts = "StatusMounts (Status cm)"
  from Cons.prems have i: "i < length ?sts" by simp
  from i have d: "drop i ?sts = ?sts ! i # drop (Suc i) ?sts"
    by (simp add: Cons_nth_drop_Suc)
  obtain res w1 where m: "unmount r os m w = (res, w1)" by (cases "unmount r os m w")
  show ?case
  proof (cases res)
    case (Panic q)
    with m show ?thesis by (simp add: markReady_Nil)
  next
    case (Ret e)
    define b where "b = (e = None)"
    define fe1 where "fe1 = (case e of None \<Rightarrow> fe | Some err \<Rightarrow> if fe = None then Some err else fe)"
    define sts1 where "sts1 = ?sts[i := (?sts ! i)\<lparr>Ready := b\<rparr>]"
    define cm1 where "cm1 = cm\<lparr>Status := (Status cm)\<lparr>StatusMounts := sts1\<rparr>\<rparr>"
    have s: "setReady i (e = None) cm = Ret cm1"
      using i by (simp add: setReady_def Let_def cm1_def sts1_def b_def)
    have step: "unmountAll_loop r os i fe (m # ms) cm w = unmountAll_loop r os (Suc i) fe1 ms cm1 w1"
    proof (cases e)
      case None
      with m Ret s show ?thesis by (simp add: fe1_def)
    next
      case (Some err)
      with m Ret s show ?thesis by (simp add: fe1_def)
    qed
    have c: "StatusMounts (Status cm1) = sts1" and c': "Status cm1 = (Status cm)\<lparr>StatusMounts := sts1\<rparr>"
      by (simp_all add: cm1_def)
    have "Suc i + length ms \<le> length (StatusMounts (Status cm1))"
      using Cons.prems by (simp add: c sts1_def)
    note IH = Cons.IH [OF this, of fe1 w1]
    obtain es p w2 where pe: "perEntry (unmount r os) ms w1 = ((es, p), w2)"
      by (metis prod.exhaust)
    have lists: "take (Suc i) sts1 @ markReady (drop (Suc i) sts1) es
                  = take i ?sts @ markReady (drop i ?sts) (e # es)"
      unfolding sts1_def using i d by (simp add: take_Suc_conv_app_nth markReady_Cons b_def)
    have errs: "(if fe1 = None then firstError es else fe1) = (if fe = None then firstError (e # es) else fe)"
      by (cases e) (auto simp: fe1_def)
    have upd: "cm1\<lparr>Status := (Status cm1)\<lparr>StatusMounts := xs\<rparr>\<rparr> = cm\<lparr>Status := (Status cm)\<lparr>StatusMounts := xs\<rparr>\<rparr>"
      for xs by (simp add: cm1_def)
    have "unmountAll_loop r os (Suc i) fe1 ms cm1 w1 =
            ((case p of None \<Rightarrow> Ret (if fe = None then firstError (e # es) else fe) | Some q \<Rightarrow> Panic q),
             cm\<lparr>Status := (Status cm)\<lparr>StatusMounts := take i ?sts @ markReady (drop i ?sts) (e # es)\<rparr>\<rparr>,
             w2)"
      unfolding IH pe c by (simp only: prod.case lists errs upd)
    moreover have "perEntry (unmount r os) (m # ms) w = ((e # es, p), w2)"
      using m Ret pe by simp
    ultimately show ?thesis
      unfolding step by (simp only: prod.case)
  qed
qed

lemma mountAll_perEntry:
  assumes "length (Mounts (Spec cm)) \<le> length (StatusMounts (Status cm))"
  shows "mountAll r os cm w =
           (case perEntry (mount r os) (Mounts (Spec cm)) w of
              ((es, p), w1) \<Rightarrow>
                ((case p of None \<Rightarrow> Ret (firstError es) | Some q \<Rightarrow> Panic q),
                 cm\<lparr>Status := (Status cm)\<lparr>StatusMounts := markReady (StatusMounts (Status cm)) es\<rparr>\<rparr>,
                 w1))"
proof -
  from assms have "0 + length (Mounts (Spec cm)) \<le> length (StatusMounts (Status cm))"
    by simp
  note loop = mountAll_loop_perEntry [OF this, of r os None w]
  obtain es p w1 where pe: "perEntry (mount r os) (Mounts (Spec cm)) w = ((es, p), w1)"
    by (metis prod.exhaust)
  show ?thesis
    unfolding mountAll_def loop pe by simp
qed

lemma unmountAll_perEntry:
  assumes "length (Mounts (Spec cm)) \<le> length (StatusMounts (Status cm))"
  shows "unmountAll r os cm w =
           (case perEntry (unmount r os) (Mounts (Spec cm)) w of
              ((es, p), w1) \<Rightarrow>
                ((case p of None \<Rightarrow> Ret (firstError es) | Some q \<Rightarrow> Panic q),
                 cm\<lparr>Status := (Status cm)\<lparr>StatusMounts := markReady (StatusMounts (Status cm)) es\<rparr>\<rparr>,
                 w1))"
proof -
  from assms have "0 + length (Mounts (Spec cm)) \<le> length (StatusMounts (Status cm))"
    by simp
  note loop = unmountAll_loop_perEntry [OF this, of r os None w]
  obtain es p w1 where pe: "perEntry (unmount r os) (Mounts (Spec cm)) w = ((es, p), w1)"
    by (metis prod.exhaust)
  show ?thesis
    unfolding unmountAll_def loop pe by simp
qed

text \<open>
  C1. Let the status list have an entry for every entry of the spec, and let \<open>es\<close> be
  the results of the per-entry operation (\<open>mount\<close> for \<open>mountAll\<close>, \<open>unmount\<close> for
  \<open>unmountAll\<close>) run on every entry in the order of the spec, each on the world its
  predecessor left, no matter which of them returned an error. Then the pass returns in
  the world the last entry left, entry \<open>i\<close> is \<open>Ready\<close> exactly when its own result is
  no error, and the returned error is that of the first entry that failed, or none when
  none failed.
\<close>

theorem mountAll_unmountAll_aggregate:
  assumes len: "length (Mounts (Spec cm)) \<le> length (StatusMounts (Status cm))"
    and pass: "(pass, each) = (mountAll, mount) \<or> (pass, each) = (unmountAll, unmount)"
    and entries: "perEntry (each r os) (Mounts (Spec cm)) w = ((es, None), w1)"
  shows "\<exists>cm1. pass r os cm w = (Ret (firstError es), cm1, w1)
           \<and> length es = length (Mounts (Spec cm))
           \<and> length (StatusMounts (Status cm1)) = length (StatusMounts (Status cm))
           \<and> (\<forall>i<length es. Ready (StatusMounts (Status cm1) ! i) = (es ! i = None))
           \<and> ((firstError es = None) = (\<forall>i<length es. es ! i = None))
           \<and> (\<forall>i<length es. es ! i \<noteq> None \<and> (\<forall>j<i. es ! j = None) \<longrightarrow> firstError es = es ! i)"
proof -
  let ?cm1 = "cm\<lparr>Status := (Status cm)\<lparr>StatusMounts := markReady (StatusMounts (Status cm)) es\<rparr>\<rparr>"
  from perEntry_length [OF entries] have n: "length es = length (Mounts (Spec cm))" .
  with len have le: "length es \<le> length (StatusMounts (Status cm))" by simp
  from pass have 1: "pass r os cm w = (Ret (firstError es), ?cm1, w1)"
  proof
    assume "(pass, each) = (mountAll, mount)"
    then have p: "pass = mountAll" and e: "each = mount" by simp_all
    from entries have "perEntry (mount r os) (Mounts (Spec cm)) w = ((es, None), w1)"
      unfolding e .
    with mountAll_perEntry [OF len, of r os w] show ?thesis
      unfolding p by simp
  next
    assume "(pass, each) = (unmountAll, unmount)"
    then have p: "pass = unmountAll" and e: "each = unmount" by simp_all
    from entries have "perEntry (unmount r os) (Mounts (Spec cm)) w = ((es, None), w1)"
      unfolding e .
    with unmountAll_perEntry [OF len, of r os w] show ?thesis
      unfolding p by simp
  qed
  have 2: "length (StatusMounts (Status ?cm1)) = length (StatusMounts (Status cm))"
    using le by (simp add: length_markReady)
  have 3: "\<forall>i<length es. Ready (StatusMounts (Status ?cm1) ! i) = (es ! i = None)"
    using le by (simp add: nth_markReady)
  have 4: "(firstError es = None) = (\<forall>i<length es. es ! i = None)"
    by (simp add: firstError_None all_set_conv_all_nth)
  have 5: "\<forall>i<length es. es ! i \<noteq> None \<and> (\<forall>j<i. es ! j = None) \<longrightarrow> firstError es = es ! i"
    using firstError_first [of _ es] by blast
  from 1 n 2 3 4 5 show ?thesis
    by (intro exI [of _ ?cm1] conjI)
qed

lemma mount_failingHost:
  "fst (mount daemon failingHost (lustreMount path) w)
     = Ret (if path = ''/mnt/b'' then Some (ExternalError ''exit status 32'') else None)"
  by (simp add: mount_def checkMount_def run_def getDevice_def mkdir_def lustreMount_def daemon_def
        failingHost_def called_def Fields_empty)

lemma perEntry_failingHost:
  "fst (perEntry (mount daemon failingHost) (Mounts (Spec threeMounts)) w)
     = ([None, Some (ExternalError ''exit status 32''), None], None)"
  by (simp add: threeMounts_def split_beta mount_failingHost)

theorem mountAll_unmountAll_aggregate_witness:
  "length (Mounts (Spec threeMounts)) \<le> length (StatusMounts (Status threeMounts))
   \<and> fst (perEntry (mount daemon failingHost) (Mounts (Spec threeMounts)) emptyWorld)
       = ([None, Some (ExternalError ''exit status 32''), None], None)
   \<and> fst (mountAll daemon failingHost threeMounts emptyWorld) = Ret (Some (ExternalError ''exit status 32''))
   \<and> map Ready (StatusMounts (Status (fst (snd (mountAll daemon failingHost threeMounts emptyWorld)))))
       = [True, False, True]"
proof -
  let ?es = "[None, Some (ExternalError ''exit status 32''), None]"
  let ?w1 = "snd (perEntry (mount daemon failingHost) (Mounts (Spec threeMounts)) emptyWorld)"
  have len: "length (Mounts (Spec threeMounts)) \<le> length (StatusMounts (Status threeMounts))"
    by (simp add: threeMounts_def)
  have pass: "(mountAll, mount) = (mountAll, mount) \<or> (mountAll, mount) = (unmountAll, unmount)"
    by simp
  have entries: "perEntry (mount daemon failingHost) (Mounts (Spec threeMounts)) emptyWorld
                   = ((?es, None), ?w1)"
    by (simp add: prod_eq_iff perEntry_failingHost)
  from mountAll_unmountAll_aggregate [OF len pass entries]
  obtain cm1 where r: "mountAll daemon failingHost threeMounts emptyWorld = (Ret (firstError ?es), cm1, ?w1)"
    and l: "length (StatusMounts (Status cm1)) = length (StatusMounts (Status threeMounts))"
    and f: "\<forall>i<length ?es. Ready (StatusMounts (Status cm1) ! i) = (?es ! i = None)"
    by blast
  from l have l3: "length (StatusMounts (Status cm1)) = 3"
    by (simp add: threeMounts_def)
  from f have "Ready (StatusMounts (Status cm1) ! 0)" "\<not> Ready (StatusMounts (Status cm1) ! 1)"
    "Ready (StatusMounts (Status cm1) ! 2)"
    by simp_all
  with l3 have "map Ready (StatusMounts (Status cm1)) = [True, False, True]"
    by (simp add: list_eq_iff_nth_eq less_Suc_eq numeral_3_eq_3 numeral_2_eq_2 all_conj_distrib)
  with r len perEntry_failingHost [of emptyWorld] show ?thesis
    by simp
qed

section \<open>The reconciliation pass\<close>

lemma configureLVMDevice_matched_panic:
  "configureLVMDevice_matched r os l activate shared fs w = (Panic p, w1) \<Longrightarrow>
     p = IndexOutOfRange 4 (length (fs ! 2))"
  using configureLVMDevice_matched_returns [of fs r os l activate shared w]
  by (cases "4 < length (fs ! 2)") (auto simp: configureLVMDevice_matched_def)

lemma configureLVMDevice_lines_panic:
  "configureLVMDevice_lines r os lvm activate shared out lines w = (Panic p, w1) \<Longrightarrow>
     p \<noteq> IndexOutOfRange 0 0"
  by (induction lines)
     (auto simp: Let_def split: option.splits if_splits dest: configureLVMDevice_matched_panic)

lemma configureLVMDevice_panic:
  "configureLVMDevice r os lvm activate shared w = (Panic p, w1) \<Longrightarrow> p \<noteq> IndexOutOfRange 0 0"
  by (auto simp: configureLVMDevice_def split: prod.splits option.splits if_splits
           dest: configureLVMDevice_lines_panic)

lemma getDevice_panic:
  "getDevice r os m w = (Panic p, w1) \<Longrightarrow> p \<noteq> IndexOutOfRange 0 0"
  by (auto simp: getDevice_def
           split: ClientMountDeviceType.splits prod.splits option.splits outcome.splits
           dest: configureLVMDevice_panic)

lemma mount_panic:
  "mount r os m w = (Panic p, w1) \<Longrightarrow> p \<noteq> IndexOutOfRange 0 0"
  by (auto simp: mount_def Let_def
           split: prod.splits option.splits outcome.splits if_splits
           dest: getDevice_panic)

lemma unmount_panic:
  "unmount r os m w = (Panic p, w1) \<Longrightarrow> p \<noteq> IndexOutOfRange 0 0"
  by (auto simp: unmount_def
           split: prod.splits option.splits outcome.splits if_splits
           dest: configureLVMDevice_panic)

lemma perEntry_panic:
  assumes "perEntry each ms w = ((es, Some p), w1)"
  shows "\<exists>m w0 w2. each m w0 = (Panic p, w2)"
  using assms
proof (induction ms arbitrary: w es)
  case Nil
  then show ?case by simp
next
  case (Cons m ms)
  obtain res w' where e: "each m w = (res, w')" by (cases "each m w")
  show ?case
  proof (cases res)
    case (Panic q)
    with e Cons.prems show ?thesis by auto
  next
    case (Ret x)
    with e Cons.prems obtain es' where "perEntry each ms w' = ((es', Some p), w1)"
      by (auto split: prod.splits)
    from Cons.IH [OF this] show ?thesis .
  qed
qed

lemma mountAll_panic:
  assumes "length (Mounts (Spec cm)) \<le> length (StatusMounts (Status cm))"
  shows "fst (mountAll r os cm w) \<noteq> Panic (IndexOutOfRange 0 0)"
proof -
  obtain es p w1 where pe: "perEntry (mount r os) (Mounts (Spec cm)) w = ((es, p), w1)"
    by (metis prod.exhaust)
  show ?thesis
  proof (cases p)
    case None
    with pe show ?thesis by (simp add: mountAll_perEntry [OF assms])
  next
    case (Some q)
    with pe perEntry_panic [of "mount r os" "Mounts (Spec cm)" w es q w1] mount_panic
    have "q \<noteq> IndexOutOfRange 0 0" by blast
    with pe Some show ?thesis by (simp add: mountAll_perEntry [OF assms])
  qed
qed

lemma unmountAll_panic:
  assumes "length (Mounts (Spec cm)) \<le> length (StatusMounts (Status cm))"
  shows "fst (unmountAll r os cm w) \<noteq> Panic (IndexOutOfRange 0 0)"
proof -
  obtain es p w1 where pe: "perEntry (unmount r os) (Mounts (Spec cm)) w = ((es, p), w1)"
    by (metis prod.exhaust)
  show ?thesis
  proof (cases p)
    case None
    with pe show ?thesis by (simp add: unmountAll_perEntry [OF assms])
  next
    case (Some q)
    with pe perEntry_panic [of "unmount r os" "Mounts (Spec cm)" w es q w1] unmount_panic
    have "q \<noteq> IndexOutOfRange 0 0" by blast
    with pe Some show ?thesis by (simp add: unmountAll_perEntry [OF assms])
  qed
qed

lemma controllers_ready_loop_returns:
  "i + length ms \<le> length (StatusMounts (Status cm)) \<Longrightarrow> \<exists>cm1. controllers_ready_loop i ms cm = Ret cm1"
  by (induction ms arbitrary: i cm) (auto simp: Let_def)

lemma StatusMounts_update_eq:
  "(st\<lparr>StatusMounts := xs\<rparr> = st) = (StatusMounts st = xs)"
  by (cases st) auto

lemma Reconcile_body_empty_mounts:
  assumes "IsZero (DeletionTimestamp cm)" and "Mounts (Spec cm) = []"
  shows "Reconcile_body r os cm w
           = (Panic (IndexOutOfRange 0 0), cm\<lparr>Status := (Status cm)\<lparr>StatusMounts := []\<rparr>\<rparr>, w)
         \<and> controllers_Reconcile_body os cm w
           = (Panic (IndexOutOfRange 0 0), cm\<lparr>Status := (Status cm)\<lparr>StatusMounts := []\<rparr>\<rparr>, w)"
proof -
  have "cm\<lparr>Status := (Status cm)\<lparr>StatusMounts := []\<rparr>\<rparr> = cm" if "StatusMounts (Status cm) = []"
    using that by simp
  with assms show ?thesis
    by (auto simp: Reconcile_body_def controllers_Reconcile_body_def makeStatus_def Let_def)
qed

lemma Reconcile_body_first_read:
  assumes "IsZero (DeletionTimestamp cm)" and "Mounts (Spec cm) \<noteq> []"
  shows "fst (Reconcile_body r os cm w) \<noteq> Panic (IndexOutOfRange 0 0)
         \<and> fst (controllers_Reconcile_body os cm w) \<noteq> Panic (IndexOutOfRange 0 0)"
proof -
  define cm1 where "cm1 =
     (if length (StatusMounts (Status cm)) \<noteq> length (Mounts (Spec cm))
      then cm\<lparr>Status := (Status cm)\<lparr>StatusMounts := makeStatus (length (Mounts (Spec cm)))\<rparr>\<rparr>
      else cm)"
  have len: "length (StatusMounts (Status cm1)) = length (Mounts (Spec cm1))"
    by (simp add: cm1_def makeStatus_def)
  have ne: "Mounts (Spec cm1) \<noteq> []"
    using assms(2) by (simp add: cm1_def)
  with len obtain first rest where st: "StatusMounts (Status cm1) = first # rest"
    by (cases "StatusMounts (Status cm1)") auto
  let ?cm2 = "cm1\<lparr>Status := (Status cm1)\<lparr>Error := None\<rparr>\<rparr>"
  have len2: "length (Mounts (Spec ?cm2)) \<le> length (StatusMounts (Status ?cm2))"
    using len by simp
  have d: "fst (Reconcile_body r os cm w) \<noteq> Panic (IndexOutOfRange 0 0)"
    using assms(1) st mountAll_panic [OF len2, of r os w] unmountAll_panic [OF len2, of r os w]
    unfolding Reconcile_body_def cm1_def [symmetric] Let_def
    by (auto split: prod.splits option.splits outcome.splits)
  from len have "0 + length (Mounts (Spec cm1)) \<le> length (StatusMounts (Status cm1))"
    by simp
  from controllers_ready_loop_returns [OF this]
  obtain cm3 where "controllers_ready_loop 0 (Mounts (Spec cm1)) cm1 = Ret cm3" ..
  with assms(1) st have c: "fst (controllers_Reconcile_body os cm w) \<noteq> Panic (IndexOutOfRange 0 0)"
    unfolding controllers_Reconcile_body_def cm1_def [symmetric] Let_def
    by (auto split: prod.splits option.splits outcome.splits)
  from d c show ?thesis by simp
qed

lemma Reconcile_panics_as_body:
  "(fst (Reconcile r os cm w) = Panic p) = (fst (Reconcile_body r os cm w) = Panic p)"
  "(fst (controllers_Reconcile os cm w) = Panic p) = (fst (controllers_Reconcile_body os cm w) = Panic p)"
  by (auto simp: Reconcile_def controllers_Reconcile_def split: prod.splits outcome.splits option.splits)

text \<open>
  C9. For a resource that is not being deleted, \<open>Reconcile\<close> (of the mount daemon and
  of the controller) reads \<open>Status.Mounts[0]\<close> right after giving the status list the
  length of \<open>Spec.Mounts\<close>. With no mount entry the list is empty and the read panics
  with index 0 out of range of length 0, before any mount or unmount operation: the
  only call that can follow is the deferred write of the status, made when the status
  list was not empty before. With at least one entry that panic does not occur.
\<close>

theorem Reconcile_empty_mounts:
  assumes "IsZero (DeletionTimestamp cm)"
  shows "(Mounts (Spec cm) = [] \<longrightarrow>
            Reconcile r os cm w
              = (Panic (IndexOutOfRange 0 0), cm\<lparr>Status := (Status cm)\<lparr>StatusMounts := []\<rparr>\<rparr>,
                 if StatusMounts (Status cm) = [] then w
                 else called (StatusUpdate (cm\<lparr>Status := (Status cm)\<lparr>StatusMounts := []\<rparr>\<rparr>)) w)
            \<and> controllers_Reconcile os cm w
              = (Panic (IndexOutOfRange 0 0), cm\<lparr>Status := (Status cm)\<lparr>StatusMounts := []\<rparr>\<rparr>,
                 if StatusMounts (Status cm) = [] then w
                 else called (StatusUpdate (cm\<lparr>Status := (Status cm)\<lparr>StatusMounts := []\<rparr>\<rparr>)) w))
         \<and> (Mounts (Spec cm) \<noteq> [] \<longrightarrow>
            fst (Reconcile r os cm w) \<noteq> Panic (IndexOutOfRange 0 0)
            \<and> fst (controllers_Reconcile os cm w) \<noteq> Panic (IndexOutOfRange 0 0))"
proof (cases "Mounts (Spec cm) = []")
  case True
  from Reconcile_body_empty_mounts [OF assms True, of r os w] True show ?thesis
    by (simp add: Reconcile_def controllers_Reconcile_def CloseWithStatusUpdate_def
          statusUpdater_close_def clientStatusUpdate_def StatusMounts_update_eq
          split: prod.splits)
next
  case False
  from Reconcile_body_first_read [OF assms False, of r os w] False show ?thesis
    by (simp add: Reconcile_panics_as_body)
qed

theorem Reconcile_empty_mounts_witness:
  "IsZero (DeletionTimestamp emptyResource) \<and> Mounts (Spec emptyResource) = []
   \<and> Reconcile daemon idleHost emptyResource emptyWorld
       = (Panic (IndexOutOfRange 0 0), emptyResource, emptyWorld)
   \<and> controllers_Reconcile idleHost emptyResource emptyWorld
       = (Panic (IndexOutOfRange 0 0), emptyResource, emptyWorld)
   \<and> IsZero (DeletionTimestamp threeMounts) \<and> Mounts (Spec threeMounts) \<noteq> []
   \<and> fst (Reconcile daemon failingHost threeMounts emptyWorld) \<noteq> Panic (IndexOutOfRange 0 0)"
proof -
  have z: "IsZero (DeletionTimestamp emptyResource)"
    by (simp add: IsZero_def emptyResource_def)
  have z3: "IsZero (DeletionTimestamp threeMounts)"
    by (simp add: IsZero_def threeMounts_def)
  have e: "emptyResource\<lparr>Status := (Status emptyResource)\<lparr>StatusMounts := []\<rparr>\<rparr> = emptyResource"
    "StatusMounts (Status emptyResource) = []"
    by (simp_all add: emptyResource_def)
  from Reconcile_empty_mounts [OF z, of daemon idleHost emptyWorld]
       Reconcile_empty_mounts [OF z3, of daemon failingHost emptyWorld] z z3
  show ?thesis
    by (simp add: e) (simp add: emptyResource_def threeMounts_def)
qed

lemma unmount_busyHost:
  "unmount daemon busyHost clusteredMount w =
     (Ret None,
      w\<lparr>calls := calls w @
                [Exec ''mount'', Exec ''umount /mnt/a'', Exec lvsCommand,
                 Exec ''vgchange --activate n vg0'', Exec ''vgchange --lockstop vg0'', Remove ''/mnt/a''],
        logs := logs w @
                [LogError (ExternalError ''device or resource busy'') ''Unable to remove mount directory''
                   [''Path'', ''/mnt/a''],
                 LogInfo ''Unmounted file system'' [''mount path'', ''/mnt/a'']]\<rparr>)"
proof -
  have c: "checkMount daemon busyHost ''/mnt/a'' w
             = ((ClientMountStateMounted, None), called (Exec ''mount'') w)" for w
  proof -
    have "run daemon busyHost ''mount'' w = ((exampleTable, None), called (Exec ''mount'') w)"
      by (simp add: run_def daemon_def busyHost_def)
    then show ?thesis
      by (simp add: checkMount_def checkMount_lines_find Split_exampleTable Fields_exampleTable
            Fields_empty)
  qed
  have u: "run daemon busyHost ''umount /mnt/a'' w = (([], None), called (Exec ''umount /mnt/a'') w)" for w
    by (simp add: run_def daemon_def busyHost_def lvsCommand_def)
  have r: "rmdir daemon busyHost ''/mnt/a'' w
             = (Some (ExternalError ''device or resource busy''), called (Remove ''/mnt/a'') w)" for w
    by (simp add: rmdir_def daemon_def busyHost_def)
  show ?thesis
    by (simp add: unmount_def clusteredMount_def exampleMount_def c u r configureLVMDevice_busyHost
          called_def logged_def)
qed

lemma mount_failingHost_succeeds:
  assumes "path \<noteq> ''/mnt/b''"
  shows "mount daemon failingHost (lustreMount path) w =
     (Ret None,
      w\<lparr>calls := calls w @ [Exec ''mount'', MkdirAll path, Exec (''mount -t lustre mgs@tcp:/fs1 '' @ path)],
        logs := logs w @ [LogInfo ''Mounted file system'' [''Mount path'', path, ''device'', ''mgs@tcp:/fs1'']]\<rparr>)"
  using assms
  by (simp add: mount_def checkMount_def run_def getDevice_def mkdir_def lustreMount_def daemon_def
        failingHost_def called_def logged_def Fields_empty)

text \<open>The status list that \<open>Reconcile\<close> compares with the desired state, and its reset.\<close>

lemma Reconcile_body_resets:
  assumes "IsZero (DeletionTimestamp cm)"
    and "(if length (StatusMounts (Status cm)) \<noteq> length (Mounts (Spec cm))
          then makeStatus (length (Mounts (Spec cm))) else StatusMounts (Status cm)) = first # rest"
    and "State first \<noteq> DesiredState (Spec cm)"
  shows "Reconcile_body r os cm w =
           (Ret (noRequeue, None),
            cm\<lparr>Status := (Status cm)
                 \<lparr>StatusMounts := map (\<lambda>s. s\<lparr>State := DesiredState (Spec cm), Ready := False\<rparr>)
                                    (first # rest)\<rparr>\<rparr>,
            w)"
    and "controllers_Reconcile_body os cm w =
           (Ret (noRequeue, None),
            cm\<lparr>Status := (Status cm)
                 \<lparr>StatusMounts :=
                    map (\<lambda>s. s\<lparr>State := DesiredState (Spec cm), Ready := False, Message := []\<rparr>)
                      (first # rest)\<rparr>\<rparr>,
            w)"
  using assms
  by (auto simp: Reconcile_body_def controllers_Reconcile_body_def Let_def split: if_splits)

lemma reset_changes_status:
  assumes "(if length (StatusMounts st) \<noteq> n then makeStatus n else StatusMounts st) = first # rest"
    and "State first \<noteq> d"
    and "\<And>s. State (f s) = d"
  shows "st\<lparr>StatusMounts := map f (first # rest)\<rparr> \<noteq> st"
proof
  assume "st\<lparr>StatusMounts := map f (first # rest)\<rparr> = st"
  then have eq: "StatusMounts st = map f (first # rest)"
    by (simp add: StatusMounts_update_eq)
  show False
  proof (cases "length (StatusMounts st) \<noteq> n")
    case True
    with assms(1) have "makeStatus n = first # rest" by simp
    then have "length (makeStatus n) = length (first # rest)" by simp
    then have "length (first # rest) = n" by (simp add: makeStatus_def)
    with eq True show False by simp
  next
    case False
    with assms(1) eq have "first = f first" by simp
    with assms(2) assms(3) [of first] show False by metis
  qed
qed


text \<open>
  C2, as the code has it. Take a resource that is not being deleted and the status list
  that \<open>Reconcile\<close> compares: the recorded one, or zero values when its length is not that
  of the spec's mounts. When its first entry records a state other than \<open>DesiredState\<close>,
  one pass sets \<open>State\<close> to \<open>DesiredState\<close> and \<open>Ready\<close> to false in every status entry
  and attempts no mount or unmount operation: its only call is the deferred write of
  the new status to the API server, whose error it returns unless that is a conflict.
  The entries of the mount daemon have an empty \<open>Message\<close> when the list was made of
  zero values; the controller's \<open>Reconcile\<close> empties \<open>Message\<close> in every case.
\<close>

theorem Reconcile_state_change_resets:
  assumes "IsZero (DeletionTimestamp cm)"
    and "(if length (StatusMounts (Status cm)) \<noteq> length (Mounts (Spec cm))
          then makeStatus (length (Mounts (Spec cm))) else StatusMounts (Status cm)) = first # rest"
    and "State first \<noteq> DesiredState (Spec cm)"
  shows "\<exists>cm1 cm2.
           Reconcile r os cm w
             = (Ret (noRequeue,
                     if IsConflict (snd (os (calls w) (StatusUpdate cm1))) then None
                     else snd (os (calls w) (StatusUpdate cm1))),
                cm1, w\<lparr>calls := calls w @ [StatusUpdate cm1]\<rparr>)
           \<and> length (StatusMounts (Status cm1)) = length (Mounts (Spec cm))
           \<and> (\<forall>s\<in>set (StatusMounts (Status cm1)). State s = DesiredState (Spec cm) \<and> \<not> Ready s)
           \<and> (length (StatusMounts (Status cm)) \<noteq> length (Mounts (Spec cm)) \<longrightarrow>
                (\<forall>s\<in>set (StatusMounts (Status cm1)). Message s = []))
           \<and> controllers_Reconcile os cm w
             = (Ret (noRequeue,
                     if IsConflict (snd (os (calls w) (StatusUpdate cm2))) then None
                     else snd (os (calls w) (StatusUpdate cm2))),
                cm2, w\<lparr>calls := calls w @ [StatusUpdate cm2]\<rparr>)
           \<and> length (StatusMounts (Status cm2)) = length (Mounts (Spec cm))
           \<and> (\<forall>s\<in>set (StatusMounts (Status cm2)).
                 State s = DesiredState (Spec cm) \<and> \<not> Ready s \<and> Message s = [])"
proof -
  let ?d = "DesiredState (Spec cm)"
  let ?f = "\<lambda>s. s\<lparr>State := ?d, Ready := False\<rparr>"
  let ?g = "\<lambda>s. s\<lparr>State := ?d, Ready := False, Message := []\<rparr>"
  let ?cm1 = "cm\<lparr>Status := (Status cm)\<lparr>StatusMounts := map ?f (first # rest)\<rparr>\<rparr>"
  let ?cm2 = "cm\<lparr>Status := (Status cm)\<lparr>StatusMounts := map ?g (first # rest)\<rparr>\<rparr>"
  note body1 = Reconcile_body_resets(1) [OF assms, of r os w]
  note body2 = Reconcile_body_resets(2) [OF assms, of os w]
  have c1: "Status ?cm1 \<noteq> Status cm"
    using reset_changes_status [OF assms(2,3), of ?f] by simp
  have c2: "Status ?cm2 \<noteq> Status cm"
    using reset_changes_status [OF assms(2,3), of ?g] by simp
  have r1: "Reconcile r os cm w
             = (Ret (noRequeue,
                     if IsConflict (snd (os (calls w) (StatusUpdate ?cm1))) then None
                     else snd (os (calls w) (StatusUpdate ?cm1))),
                ?cm1, w\<lparr>calls := calls w @ [StatusUpdate ?cm1]\<rparr>)"
    unfolding Reconcile_def body1 using c1
    by (simp add: CloseWithStatusUpdate_def clientStatusUpdate_def called_def)
  have r2: "controllers_Reconcile os cm w
             = (Ret (noRequeue,
                     if IsConflict (snd (os (calls w) (StatusUpdate ?cm2))) then None
                     else snd (os (calls w) (StatusUpdate ?cm2))),
                ?cm2, w\<lparr>calls := calls w @ [StatusUpdate ?cm2]\<rparr>)"
    unfolding controllers_Reconcile_def body2 using c2
    by (simp add: statusUpdater_close_def clientStatusUpdate_def called_def)
  have len: "length (first # rest) = length (Mounts (Spec cm))"
  proof (cases "length (StatusMounts (Status cm)) \<noteq> length (Mounts (Spec cm))")
    case True
    with assms(2) have "makeStatus (length (Mounts (Spec cm))) = first # rest" by simp
    then have "length (makeStatus (length (Mounts (Spec cm)))) = length (first # rest)" by simp
    then show ?thesis by (simp add: makeStatus_def)
  next
    case False
    with assms(2) show ?thesis by simp
  qed
  have msg: "\<forall>s\<in>set (first # rest). Message s = []"
    if "length (StatusMounts (Status cm)) \<noteq> length (Mounts (Spec cm))"
  proof -
    from that assms(2) have "makeStatus (length (Mounts (Spec cm))) = first # rest" by simp
    then have "set (first # rest) \<subseteq> {zeroStatus}"
      unfolding makeStatus_def by (metis set_replicate_conv_if empty_subsetI subset_refl)
    then show ?thesis by (auto simp: zeroStatus_def)
  qed
  have 1: "length (StatusMounts (Status ?cm1)) = length (Mounts (Spec cm))"
    using len by simp
  have 2: "\<forall>s\<in>set (StatusMounts (Status ?cm1)). State s = ?d \<and> \<not> Ready s"
    by simp
  have 3: "length (StatusMounts (Status cm)) \<noteq> length (Mounts (Spec cm)) \<longrightarrow>
             (\<forall>s\<in>set (StatusMounts (Status ?cm1)). Message s = [])"
    using msg by simp
  have 4: "length (StatusMounts (Status ?cm2)) = length (Mounts (Spec cm))"
    using len by simp
  have 5: "\<forall>s\<in>set (StatusMounts (Status ?cm2)). State s = ?d \<and> \<not> Ready s \<and> Message s = []"
    by simp
  from r1 1 2 3 r2 4 5 show ?thesis
    by (intro exI [of _ ?cm1] exI [of _ ?cm2] conjI)
qed


theorem Reconcile_state_change_resets_witness:
  "IsZero (DeletionTimestamp staleResource)
   \<and> (if length (StatusMounts (Status staleResource)) \<noteq> length (Mounts (Spec staleResource))
        then makeStatus (length (Mounts (Spec staleResource))) else StatusMounts (Status staleResource))
       = [\<lparr>State = ClientMountStateUnmounted, Ready = True, Message = ''old failure''\<rparr>]
   \<and> State \<lparr>State = ClientMountStateUnmounted, Ready = True, Message = ''old failure''\<rparr>
       \<noteq> DesiredState (Spec staleResource)
   \<and> (\<exists>cm1 cm2.
         Reconcile daemon busyHost staleResource emptyWorld
           = (Ret (noRequeue, None), cm1, \<lparr>calls = [StatusUpdate cm1], logs = []\<rparr>)
         \<and> map State (StatusMounts (Status cm1)) = [ClientMountStateMounted]
         \<and> map Ready (StatusMounts (Status cm1)) = [False]
         \<and> controllers_Reconcile busyHost staleResource emptyWorld
           = (Ret (noRequeue, None), cm2, \<lparr>calls = [StatusUpdate cm2], logs = []\<rparr>)
         \<and> map State (StatusMounts (Status cm2)) = [ClientMountStateMounted]
         \<and> map Ready (StatusMounts (Status cm2)) = [False]
         \<and> map Message (StatusMounts (Status cm2)) = [[]])"
proof -
  let ?first = "\<lparr>State = ClientMountStateUnmounted, Ready = True, Message = ''old failure''\<rparr>"
  have z: "IsZero (DeletionTimestamp staleResource)"
    by (simp add: IsZero_def staleResource_def)
  have s: "(if length (StatusMounts (Status staleResource)) \<noteq> length (Mounts (Spec staleResource))
            then makeStatus (length (Mounts (Spec staleResource)))
            else StatusMounts (Status staleResource)) = ?first # []"
    by (simp add: staleResource_def)
  have d: "State ?first \<noteq> DesiredState (Spec staleResource)"
    by (simp add: staleResource_def)
  have h: "snd (busyHost history (StatusUpdate obj)) = None" for history obj
    by (simp add: busyHost_def)
  from Reconcile_state_change_resets [OF z s d, of daemon busyHost emptyWorld]
  obtain cm1 cm2 where
    1: "Reconcile daemon busyHost staleResource emptyWorld
          = (Ret (noRequeue, None), cm1, \<lparr>calls = [StatusUpdate cm1], logs = []\<rparr>)"
    and l1: "length (StatusMounts (Status cm1)) = length (Mounts (Spec staleResource))"
    and a1: "\<forall>s\<in>set (StatusMounts (Status cm1)). State s = DesiredState (Spec staleResource) \<and> \<not> Ready s"
    and 2: "controllers_Reconcile busyHost staleResource emptyWorld
          = (Ret (noRequeue, None), cm2, \<lparr>calls = [StatusUpdate cm2], logs = []\<rparr>)"
    and l2: "length (StatusMounts (Status cm2)) = length (Mounts (Spec staleResource))"
    and a2: "\<forall>s\<in>set (StatusMounts (Status cm2)).
               State s = DesiredState (Spec staleResource) \<and> \<not> Ready s \<and> Message s = []"
    by (auto simp: h IsConflict_def emptyWorld_def)
  from l1 obtain x where x: "StatusMounts (Status cm1) = [x]"
    by (cases "StatusMounts (Status cm1)") (auto simp: staleResource_def)
  from l2 obtain y where y: "StatusMounts (Status cm2) = [y]"
    by (cases "StatusMounts (Status cm2)") (auto simp: staleResource_def)
  from a1 x have m1: "map State (StatusMounts (Status cm1)) = [ClientMountStateMounted]
                      \<and> map Ready (StatusMounts (Status cm1)) = [False]"
    by (simp add: staleResource_def)
  from a2 y have m2: "map State (StatusMounts (Status cm2)) = [ClientMountStateMounted]
                      \<and> map Ready (StatusMounts (Status cm2)) = [False]
                      \<and> map Message (StatusMounts (Status cm2)) = [[]]"
    by (simp add: staleResource_def)
  from 1 2 m1 m2 have "\<exists>cm1 cm2.
         Reconcile daemon busyHost staleResource emptyWorld
           = (Ret (noRequeue, None), cm1, \<lparr>calls = [StatusUpdate cm1], logs = []\<rparr>)
         \<and> map State (StatusMounts (Status cm1)) = [ClientMountStateMounted]
         \<and> map Ready (StatusMounts (Status cm1)) = [False]
         \<and> controllers_Reconcile busyHost staleResource emptyWorld
           = (Ret (noRequeue, None), cm2, \<lparr>calls = [StatusUpdate cm2], logs = []\<rparr>)
         \<and> map State (StatusMounts (Status cm2)) = [ClientMountStateMounted]
         \<and> map Ready (StatusMounts (Status cm2)) = [False]
         \<and> map Message (StatusMounts (Status cm2)) = [[]]"
    by (intro exI [of _ cm1] exI [of _ cm2]) simp
  with z s d show ?thesis by simp
qed

theorem Reconcile_state_change_counterexample:
  "State (hd (StatusMounts (Status staleResource))) \<noteq> DesiredState (Spec staleResource)
   \<and> map Message (StatusMounts (Status (fst (snd (Reconcile daemon busyHost staleResource emptyWorld)))))
       = [''old failure'']
   \<and> State (hd (StatusMounts (Status deletedResource))) \<noteq> DesiredState (Spec deletedResource)
   \<and> map State (StatusMounts (Status (fst (snd (Reconcile daemon busyHost deletedResource emptyWorld)))))
       = [ClientMountStateMounted]
   \<and> take 2 (calls (snd (snd (Reconcile daemon busyHost deletedResource emptyWorld))))
       = [Exec ''mount'', Exec ''umount /mnt/a'']
   \<and> State (StatusMounts (Status mixedResource) ! 1) \<noteq> DesiredState (Spec mixedResource)
   \<and> map State (StatusMounts (Status (fst (snd (Reconcile daemon failingHost mixedResource emptyWorld)))))
       = [ClientMountStateMounted, ClientMountStateUnmounted]
   \<and> calls (snd (snd (Reconcile daemon failingHost mixedResource emptyWorld)))
       = [Exec ''mount'', MkdirAll ''/mnt/a'', Exec ''mount -t lustre mgs@tcp:/fs1 /mnt/a'',
          Exec ''mount'', MkdirAll ''/mnt/c'', Exec ''mount -t lustre mgs@tcp:/fs1 /mnt/c'']"
proof -
  have a: "State (hd (StatusMounts (Status staleResource))) \<noteq> DesiredState (Spec staleResource)
           \<and> map Message (StatusMounts (Status (fst (snd (Reconcile daemon busyHost staleResource emptyWorld)))))
               = [''old failure'']"
    by (simp add: Reconcile_def Reconcile_body_def IsZero_def staleResource_def Let_def
          CloseWithStatusUpdate_def clientStatusUpdate_def split_beta)
  have b: "State (hd (StatusMounts (Status deletedResource))) \<noteq> DesiredState (Spec deletedResource)
           \<and> map State (StatusMounts (Status (fst (snd (Reconcile daemon busyHost deletedResource emptyWorld)))))
               = [ClientMountStateMounted]
           \<and> take 2 (calls (snd (snd (Reconcile daemon busyHost deletedResource emptyWorld))))
               = [Exec ''mount'', Exec ''umount /mnt/a'']"
    by (simp add: Reconcile_def Reconcile_body_def IsZero_def ContainsFinalizer_def deletedResource_def
          unmountAll_def unmount_busyHost logged_def setReady_def Let_def RemoveFinalizer_def
          clientUpdate_def called_def busyHost_def emptyWorld_def finalizerClientMount_def
          CloseWithStatusUpdate_def clientStatusUpdate_def)
  have c: "State (StatusMounts (Status mixedResource) ! 1) \<noteq> DesiredState (Spec mixedResource)
           \<and> map State (StatusMounts (Status (fst (snd (Reconcile daemon failingHost mixedResource emptyWorld)))))
               = [ClientMountStateMounted, ClientMountStateUnmounted]
           \<and> calls (snd (snd (Reconcile daemon failingHost mixedResource emptyWorld)))
               = [Exec ''mount'', MkdirAll ''/mnt/a'', Exec ''mount -t lustre mgs@tcp:/fs1 /mnt/a'',
                  Exec ''mount'', MkdirAll ''/mnt/c'', Exec ''mount -t lustre mgs@tcp:/fs1 /mnt/c'']"
    by (simp add: Reconcile_def Reconcile_body_def IsZero_def ContainsFinalizer_def mixedResource_def
          mountAll_def mount_failingHost_succeeds setReady_def Let_def emptyWorld_def
          finalizerClientMount_def CloseWithStatusUpdate_def clientStatusUpdate_def)
  from a b c show ?thesis by simp
qed

end
